theory Spec2Isabelle
  imports Main
begin

section \<open>Text\<close>

text \<open>
  A Python \<open>str\<close> is modelled as a \<open>string\<close> holding its UTF-8 bytes, so that
  concatenation, equality and the substring test \<open>k in s\<close> are those of Python.
  \<open>str.lower\<close> and \<open>str.strip\<close> belong to the Python runtime; they are modelled on the
  ASCII range (letters \<open>A\<close>..\<open>Z\<close>, and the ASCII characters for which \<open>str.isspace\<close>
  holds); bytes of a code point beyond ASCII are left as they are.
\<close>

fun startswith :: "string \<Rightarrow> string \<Rightarrow> bool" where
  "startswith s [] = True"
| "startswith [] (k # ks) = False"
| "startswith (c # cs) (k # ks) = (c = k \<and> startswith cs ks)"

text \<open>\<open>contains s k\<close> is Python's \<open>k in s\<close>.\<close>

fun contains :: "string \<Rightarrow> string \<Rightarrow> bool" where
  "contains [] k = (k = [])"
| "contains (c # cs) k = (startswith (c # cs) k \<or> contains cs k)"

definition lower_char :: "char \<Rightarrow> char" where
  "lower_char c =
     (case map_of (zip ''ABCDEFGHIJKLMNOPQRSTUVWXYZ'' ''abcdefghijklmnopqrstuvwxyz'') c of
        Some d \<Rightarrow> d
      | None \<Rightarrow> c)"

definition lower :: "string \<Rightarrow> string" where
  "lower s = map lower_char s"

definition isspace :: "char \<Rightarrow> bool" where
  "isspace c = (c \<in> set [CHR 0x09, CHR 0x0A, CHR 0x0B, CHR 0x0C, CHR 0x0D,
                           CHR 0x1C, CHR 0x1D, CHR 0x1E, CHR 0x1F, CHR 0x20])"

definition lstrip :: "string \<Rightarrow> string" where
  "lstrip s = dropWhile isspace s"

definition rstrip :: "string \<Rightarrow> string" where
  "rstrip s = rev (dropWhile isspace (rev s))"

definition strip :: "string \<Rightarrow> string" where
  "strip s = rstrip (lstrip s)"

text \<open>\<open>any(keyword in s for keyword in keywords)\<close>.\<close>

fun any_keyword_in :: "string list \<Rightarrow> string \<Rightarrow> bool" where
  "any_keyword_in [] s = False"
| "any_keyword_in (k # ks) s = (contains s k \<or> any_keyword_in ks s)"

text \<open>
  Strings are UTF-8 bytes, so \<open>len(s)\<close> and \<open>s[:n]\<close>, which count code points, skip the
  continuation bytes \<open>0x80\<close>..\<open>0xBF\<close>.
\<close>

definition is_continuation :: "char \<Rightarrow> bool" where
  "is_continuation c = ((128::nat) \<le> of_char c \<and> (of_char c :: nat) < 192)"

definition len_chars :: "string \<Rightarrow> nat" where
  "len_chars s = length (filter (\<lambda>c. \<not> is_continuation c) s)"

fun take_chars :: "nat \<Rightarrow> string \<Rightarrow> string" where
  "take_chars n [] = []"
| "take_chars n (c # cs) =
     (if is_continuation c then c # take_chars n cs
      else (case n of 0 \<Rightarrow> [] | Suc m \<Rightarrow> c # take_chars m cs))"

text \<open>\<open>xs[-n:]\<close> for a positive \<open>n\<close>.\<close>

definition last_n :: "nat \<Rightarrow> 'a list \<Rightarrow> 'a list" where
  "last_n n xs = drop (length xs - n) xs"

text \<open>Decimal digits of a natural number, for \<open>f"conv_{int(time.time())}"\<close>.\<close>

fun decimal :: "nat \<Rightarrow> string" where
  "decimal n =
     (if n < 10 then [''0123456789'' ! n]
      else decimal (n div 10) @ [''0123456789'' ! (n mod 10)])"

declare decimal.simps [simp del]


section \<open>Messages and the prompt\<close>

text \<open>
  An entry of \<open>current_conversation\<close>: the dictionary with the keys \<open>role\<close>, \<open>content\<close>
  and \<open>timestamp\<close> that \<open>send_message\<close> and \<open>generate_response_streaming\<close> append.
\<close>

record message =
  role :: string
  content :: string
  timestamp :: string

definition prompt_keywords :: "string list" where
  "prompt_keywords = [''python'', ''code'', ''programme'', ''script'', ''def '', ''import '']"

definition first_prompt :: "string \<Rightarrow> string" where
  "first_prompt user_message =
     ''Tu es Prometheus AI, un assistant IA local sp'' @ [CHR 0xC3, CHR 0xA9] @ ''cialis''
       @ [CHR 0xC3, CHR 0xA9] @ '' en programmation.\<newline>''
     @ ''L'' @ [CHR 0x27] @ ''utilisateur dit: '' @ [CHR 0x22] @ user_message
       @ [CHR 0x22] @ ''\<newline>\<newline>''
     @ ''Si l'' @ [CHR 0x27] @ ''utilisateur demande du code Python, r'' @ [CHR 0xC3, CHR 0xA9]
       @ ''ponds UNIQUEMENT avec:\<newline>''
     @ ''```python\<newline>[code complet et fonctionnel]\<newline>```\<newline>''
     @ ''Ne donne pas d'' @ [CHR 0x27] @ ''explications, ne dis pas '' @ [CHR 0x22]
       @ ''Voici le code'' @ [CHR 0x22] @ '', montre directement le code.''"

definition history_header :: string where
  "history_header = ''Historique de la conversation:\<newline>''"

definition code_only_instruction :: string where
  "code_only_instruction =
     ''Instructions: Fournis UNIQUEMENT le code Python complet entre ```python et ```. Pas d''
     @ [CHR 0x27] @ ''explications, pas de texte avant ou apr'' @ [CHR 0xC3, CHR 0xA8] @ ''s.''"

definition role_label :: "message \<Rightarrow> string" where
  "role_label msg = (if role msg = ''user'' then ''Utilisateur'' else ''Assistant'')"

text \<open>The body of the loop \<open>for msg in recent_messages: prompt += ...\<close>.\<close>

definition add_history_line :: "string \<Rightarrow> message \<Rightarrow> string" where
  "add_history_line prompt msg = prompt @ role_label msg @ '': '' @ content msg @ ''\<newline>''"

definition build_prompt :: "message list \<Rightarrow> string \<Rightarrow> string" where
  "build_prompt current_conversation user_message =
     (if current_conversation = [] then first_prompt user_message
      else
        let recent_messages = last_n 6 current_conversation;
            prompt = foldl add_history_line history_header recent_messages;
            prompt = prompt @ ''\<newline>Utilisateur: '' @ user_message @ ''\<newline>\<newline>'';
            prompt = (if any_keyword_in prompt_keywords (lower user_message)
                      then prompt @ code_only_instruction else prompt)
        in prompt @ ''Assistant:'')"

subsection \<open>The prompt as the specification words it\<close>

definition history_line :: "message \<Rightarrow> string" where
  "history_line msg = role_label msg @ '': '' @ content msg @ ''\<newline>''"

definition is_programming_request :: "string \<Rightarrow> bool" where
  "is_programming_request user_message = any_keyword_in prompt_keywords (lower user_message)"

text \<open>
  Preamble, then the last six messages as \<open>Role: content\<close> lines, then the new user
  message, then the code-only instruction exactly when the message is programming-related.
\<close>

definition prompt_spec :: "message list \<Rightarrow> string \<Rightarrow> string" where
  "prompt_spec history user_message =
     history_header
     @ concat (map history_line (last_n 6 history))
     @ ''\<newline>Utilisateur: '' @ user_message @ ''\<newline>\<newline>''
     @ (if is_programming_request user_message then code_only_instruction else [])
     @ ''Assistant:''"


section \<open>Chunks of the model's stream\<close>

text \<open>
  A chunk is whatever the model library yields: a dictionary or an object with
  attributes. The values the extraction code can meet are Python values; the model has
  \<open>None\<close>, booleans, integers, strings, lists, dictionaries with string keys, and
  plain objects given by their attributes.
\<close>

datatype pyval =
    PNone
  | PBool bool
  | PInt int
  | PStr string
  | PList "pyval list"
  | PDict "(string \<times> pyval) list"
  | PObject "(string \<times> pyval) list"

datatype py_error =
    TypeError string
  | KeyError string
  | IndexError string
  | AttributeError string
  | ModelError string
  | OSError string
  | RecursionError string

text \<open>\<open>str(e)\<close>.\<close>

fun error_text :: "py_error \<Rightarrow> string" where
  "error_text (TypeError m) = m"
| "error_text (KeyError m) = m"
| "error_text (IndexError m) = m"
| "error_text (AttributeError m) = m"
| "error_text (ModelError m) = m"
| "error_text (OSError m) = m"
| "error_text (RecursionError m) = m"

text \<open>Truth value of a Python value (a plain object is true).\<close>

fun truthy :: "pyval \<Rightarrow> bool" where
  "truthy PNone = False"
| "truthy (PBool b) = b"
| "truthy (PInt i) = (i \<noteq> 0)"
| "truthy (PStr s) = (s \<noteq> [])"
| "truthy (PList xs) = (xs \<noteq> [])"
| "truthy (PDict kvs) = (kvs \<noteq> [])"
| "truthy (PObject attrs) = True"

text \<open>\<open>a or b\<close>.\<close>

definition py_or :: "pyval \<Rightarrow> pyval \<Rightarrow> pyval" where
  "py_or a b = (if truthy a then a else b)"

text \<open>\<open>d.get(key)\<close> and \<open>d.get(key, default)\<close> on the entries of a dictionary.\<close>

definition dict_get :: "(string \<times> pyval) list \<Rightarrow> string \<Rightarrow> pyval" where
  "dict_get d key = (case map_of d key of Some v \<Rightarrow> v | None \<Rightarrow> PNone)"

definition dict_get_default :: "(string \<times> pyval) list \<Rightarrow> string \<Rightarrow> pyval \<Rightarrow> pyval" where
  "dict_get_default d key dflt = (case map_of d key of Some v \<Rightarrow> v | None \<Rightarrow> dflt)"

text \<open>
  \<open>hasattr(x, name)\<close> for the names \<open>choices\<close> and \<open>text\<close>, which no built-in value has.
\<close>

fun hasattr :: "pyval \<Rightarrow> string \<Rightarrow> bool" where
  "hasattr (PObject attrs) name = (map_of attrs name \<noteq> None)"
| "hasattr v name = False"

text \<open>\<open>x.name\<close>, read only after \<open>hasattr(x, name)\<close> has answered true.\<close>

fun getattr :: "pyval \<Rightarrow> string \<Rightarrow> pyval" where
  "getattr (PObject attrs) name = (case map_of attrs name of Some v \<Rightarrow> v | None \<Rightarrow> PNone)"
| "getattr v name = PNone"

text \<open>\<open>x[0]\<close>, with the exception Python raises where \<open>x\<close> has no element \<open>0\<close>.\<close>

fun index0 :: "pyval \<Rightarrow> py_error + pyval" where
  "index0 (PList []) = Inl (IndexError ''list index out of range'')"
| "index0 (PList (x # xs)) = Inr x"
| "index0 (PStr []) = Inl (IndexError ''string index out of range'')"
| "index0 (PStr (c # cs)) = Inr (PStr (c # takeWhile is_continuation cs))"
| "index0 (PDict kvs) = Inl (KeyError ''0'')"
| "index0 v = Inl (TypeError ''object is not subscriptable'')"

definition is_dict :: "pyval \<Rightarrow> bool" where
  "is_dict v = (case v of PDict d \<Rightarrow> True | _ \<Rightarrow> False)"

text \<open>\<open>c0.get("text", "") or ""\<close> for a dictionary \<open>c0\<close>.\<close>

definition dict_text :: "pyval \<Rightarrow> pyval" where
  "dict_text c0 =
     (case c0 of PDict d0 \<Rightarrow> py_or (dict_get_default d0 ''text'' (PStr [])) (PStr [])
      | _ \<Rightarrow> PStr [])"

text \<open>
  The token of one chunk: the statements between \<open>token = ""\<close> and \<open>if token:\<close> in the
  loop of \<open>generate_response_streaming\<close>.
\<close>

definition extract_token :: "pyval \<Rightarrow> py_error + pyval" where
  "extract_token chunk =
     (if is_dict chunk then
        (case chunk of
           PDict d \<Rightarrow>
             let choices = py_or (dict_get d ''choices'') (PList []) in
             if truthy choices then
               (case index0 choices of
                  Inl e \<Rightarrow> Inl e
                | Inr c0 \<Rightarrow> if is_dict c0 then Inr (dict_text c0) else Inr (PStr []))
             else Inr (PStr [])
         | _ \<Rightarrow> Inr (PStr []))
      else if hasattr chunk ''choices'' \<and> truthy (getattr chunk ''choices'') then
        (case index0 (getattr chunk ''choices'') of
           Inl e \<Rightarrow> Inl e
         | Inr c0 \<Rightarrow>
             if is_dict c0 then Inr (dict_text c0)
             else if hasattr c0 ''text'' then Inr (py_or (getattr c0 ''text'') (PStr []))
             else Inr (PStr []))
      else Inr (PStr []))"

subsection \<open>The chunk shapes of the specification\<close>

text \<open>The entry \<open>choices\<close> of a chunk, by key for a dictionary, by attribute for an object.\<close>

definition choices_entry :: "pyval \<Rightarrow> pyval option" where
  "choices_entry chunk =
     (case chunk of PDict d \<Rightarrow> map_of d ''choices'' | PObject a \<Rightarrow> map_of a ''choices''
      | _ \<Rightarrow> None)"

text \<open>
  The entry \<open>text\<close> of the first choice: read by key where the first choice is a
  dictionary, read by attribute where the chunk is an object and its first choice is an
  object too.
\<close>

definition text_entry :: "pyval \<Rightarrow> pyval option" where
  "text_entry chunk =
     (case choices_entry chunk of
        Some (PList (PDict d0 # cs)) \<Rightarrow> map_of d0 ''text''
      | Some (PList (PObject a0 # cs)) \<Rightarrow>
          (case chunk of PObject a \<Rightarrow> map_of a0 ''text'' | _ \<Rightarrow> None)
      | _ \<Rightarrow> None)"

text \<open>The text delta of a chunk: the text of its first choice, empty where there is none.\<close>

definition text_delta :: "pyval \<Rightarrow> string" where
  "text_delta chunk = (case text_entry chunk of Some (PStr s) \<Rightarrow> s | _ \<Rightarrow> [])"

text \<open>
  A chunk of one of the two shapes: its \<open>choices\<close>, where present, is a list (or \<open>None\<close>),
  and the \<open>text\<close> of its first choice, where present, is a string (or \<open>None\<close>).
\<close>

definition chunk_shape :: "pyval \<Rightarrow> bool" where
  "chunk_shape chunk =
     ((case choices_entry chunk of
         None \<Rightarrow> True | Some (PList cs) \<Rightarrow> True | Some PNone \<Rightarrow> True | Some v \<Rightarrow> False)
      \<and> (case text_entry chunk of
         None \<Rightarrow> True | Some (PStr s) \<Rightarrow> True | Some PNone \<Rightarrow> True | Some v \<Rightarrow> False))"


section \<open>Finalising a response\<close>

text \<open>\<open>s.split('\n')\<close>.\<close>

fun split_lines :: "string \<Rightarrow> string list" where
  "split_lines [] = [] # []"
| "split_lines (c # cs) =
     (if c = CHR 0x0A then [] # split_lines cs
      else (case split_lines cs of [] \<Rightarrow> [c] # [] | l # ls \<Rightarrow> (c # l) # ls))"

definition python_indicators :: "string list" where
  "python_indicators =
     [''import '', ''def '', ''class '', ''print('', ''return '', ''if __name__'',
      ''from '', ''as '', ''try:'', ''except '', ''finally:'', ''with '', ''lambda '',
      ''for '', ''while '', ''if '', ''elif '', ''else:'', ''and '', ''or '', ''not '',
      ''True'', ''False'', ''None'', ''self.'', ''super()'']"

text \<open>
  The loop of \<open>looks_like_python_code\<close> adds \<open>1\<close> or \<open>0.5\<close> for a line and compares
  the sum with \<open>2\<close>; the model counts in halves: \<open>2\<close> or \<open>1\<close> for a line, compared
  to \<open>4\<close>.
\<close>

definition line_score :: "string \<Rightarrow> nat" where
  "line_score line =
     (let line_clean = strip line in
      if any_keyword_in python_indicators line_clean then 2
      else if line_clean \<noteq> [] \<and> \<not> startswith line_clean ''#'' \<and> len_chars line_clean > 3
      then 1
      else 0)"

definition looks_like_python_code :: "string \<Rightarrow> bool" where
  "looks_like_python_code text =
     (let lines = split_lines (strip text) in
      if length lines < 2 then False
      else foldl (\<lambda>code_like_lines line. code_like_lines + line_score line) 0 lines \<ge> 4)"

text \<open>The text after, and the text before, the first occurrence of \<open>k\<close> in \<open>s\<close>.\<close>

fun after_first :: "string \<Rightarrow> string \<Rightarrow> string option" where
  "after_first [] k = (if k = [] then Some [] else None)"
| "after_first (c # cs) k =
     (if startswith (c # cs) k then Some (drop (length k) (c # cs)) else after_first cs k)"

fun before_first :: "string \<Rightarrow> string \<Rightarrow> string option" where
  "before_first [] k = (if k = [] then Some [] else None)"
| "before_first (c # cs) k =
     (if startswith (c # cs) k then Some []
      else (case before_first cs k of None \<Rightarrow> None | Some b \<Rightarrow> Some (c # b)))"

text \<open>
  \<open>re.findall(r'```python\s*(.*?)\s*```', response, re.DOTALL)\<close>, first element, if any.
  The pattern matches at the first \<open>```python\<close>: the greedy \<open>\s*\<close> takes the white space
  after it, the lazy group runs to the next \<open>```\<close>, and the second \<open>\s*\<close> takes the white
  space that ends the group. There is no match exactly when no \<open>```\<close> follows.
\<close>

definition first_python_block :: "string \<Rightarrow> string option" where
  "first_python_block response =
     (case after_first response ''```python'' of
        None \<Rightarrow> None
      | Some rest \<Rightarrow>
          (case before_first (lstrip rest) ''```'' of
             None \<Rightarrow> None
           | Some body \<Rightarrow> Some (rstrip body)))"

definition format_keywords :: "string list" where
  "format_keywords =
     [''python'', ''code'', ''programme'', ''script'', ''statistique'', ''statistiques'']"

text \<open>\<open>generate_statistics_code\<close> ignores its argument and returns this text.\<close>

definition generate_statistics_code :: string where
  "generate_statistics_code = concat
     [''```python\<newline>'',
      ''import numpy as np\<newline>'',
      ''import pandas as pd\<newline>'',
      ''import matplotlib.pyplot as plt\<newline>'',
      ''import seaborn as sns\<newline>'',
      ''from scipy import stats\<newline>'',
      ''import warnings\<newline>'',
      ''warnings.filterwarnings('' @ [CHR 0x27] @ ''ignore'' @ [CHR 0x27] @ '')\<newline>'',
      ''\<newline>'',
      ''# =============================================\<newline>'',
      ''# PROGRAMME COMPLET POUR LES STATISTIQUES AVANC'' @ [CHR 0xC3, CHR 0x89] @ ''ES\<newline>'',
      ''# =============================================\<newline>'',
      ''\<newline>'',
      ''class AnalyseStatistiques:\<newline>'',
      ''    '' @ [CHR 0x27, CHR 0x27, CHR 0x27] @ ''Classe pour effectuer des analyses statistiques compl'' @ [CHR 0xC3, CHR 0xA8] @ ''tes'' @ [CHR 0x27, CHR 0x27, CHR 0x27] @ ''\<newline>'',
      ''    \<newline>'',
      ''    def __init__(self, data=None, fichier=None):\<newline>'',
      ''        '' @ [CHR 0x27, CHR 0x27, CHR 0x27] @ ''\<newline>'',
      ''        Initialise l'' @ [CHR 0x27] @ ''analyse statistique\<newline>'',
      ''        \<newline>'',
      ''        Parameters:\<newline>'',
      ''        -----------\<newline>'',
      ''        data : DataFrame ou dict, optionnel\<newline>'',
      ''            Donn'' @ [CHR 0xC3, CHR 0xA9] @ ''es '' @ [CHR 0xC3, CHR 0xA0] @ '' analyser\<newline>'',
      ''        fichier : str, optionnel\<newline>'',
      ''            Chemin vers un fichier CSV, Excel ou JSON\<newline>'',
      ''        '' @ [CHR 0x27, CHR 0x27, CHR 0x27] @ ''\<newline>'',
      ''        if fichier:\<newline>'',
      ''            self.charger_donnees(fichier)\<newline>'',
      ''        elif data is not None:\<newline>'',
      ''            if isinstance(data, pd.DataFrame):\<newline>'',
      ''                self.data = data\<newline>'',
      ''            else:\<newline>'',
      ''                self.data = pd.DataFrame(data)\<newline>'',
      ''        else:\<newline>'',
      ''            self.data = pd.DataFrame()\<newline>'',
      ''            \<newline>'',
      ''        self.resultats = {}\<newline>'',
      ''    \<newline>'',
      ''    def charger_donnees(self, fichier):\<newline>'',
      ''        '' @ [CHR 0x27, CHR 0x27, CHR 0x27] @ ''Charge les donn'' @ [CHR 0xC3, CHR 0xA9] @ ''es depuis un fichier'' @ [CHR 0x27, CHR 0x27, CHR 0x27] @ ''\<newline>'',
      ''        extension = fichier.split('' @ [CHR 0x27] @ ''.'' @ [CHR 0x27] @ '')[-1].lower()\<newline>'',
      ''        \<newline>'',
      ''        try:\<newline>'',
      ''            if extension == '' @ [CHR 0x27] @ ''csv'' @ [CHR 0x27] @ '':\<newline>'',
      ''                self.data = pd.read_csv(fichier)\<newline>'',
      ''            elif extension in ['' @ [CHR 0x27] @ ''xls'' @ [CHR 0x27] @ '', '' @ [CHR 0x27] @ ''xlsx'' @ [CHR 0x27] @ '']:\<newline>'',
      ''                self.data = pd.read_excel(fichier)\<newline>'',
      ''            elif extension == '' @ [CHR 0x27] @ ''json'' @ [CHR 0x27] @ '':\<newline>'',
      ''                self.data = pd.read_json(fichier)\<newline>'',
      ''            else:\<newline>'',
      ''                raise ValueError(f'' @ [CHR 0x22] @ ''Format non support'' @ [CHR 0xC3, CHR 0xA9] @ '': {extension}'' @ [CHR 0x22] @ '')\<newline>'',
      ''                \<newline>'',
      ''            print(f'' @ [CHR 0x22, CHR 0xE2, CHR 0x9C, CHR 0x85] @ '' Donn'' @ [CHR 0xC3, CHR 0xA9] @ ''es charg'' @ [CHR 0xC3, CHR 0xA9] @ ''es: {self.data.shape[0]} lignes, {self.data.shape[1]} colonnes'' @ [CHR 0x22] @ '')\<newline>'',
      ''        except Exception as e:\<newline>'',
      ''            print(f'' @ [CHR 0x22, CHR 0xE2, CHR 0x9D, CHR 0x8C] @ '' Erreur de chargement: {e}'' @ [CHR 0x22] @ '')\<newline>'',
      ''            self.data = pd.DataFrame()\<newline>'',
      ''    \<newline>'',
      ''    def resume_complet(self):\<newline>'',
      ''        '' @ [CHR 0x27, CHR 0x27, CHR 0x27] @ ''G'' @ [CHR 0xC3, CHR 0xA9] @ ''n'' @ [CHR 0xC3, CHR 0xA8] @ ''re un r'' @ [CHR 0xC3, CHR 0xA9] @ ''sum'' @ [CHR 0xC3, CHR 0xA9] @ '' complet des donn'' @ [CHR 0xC3, CHR 0xA9] @ ''es'' @ [CHR 0x27, CHR 0x27, CHR 0x27] @ ''\<newline>'',
      ''        if self.data.empty:\<newline>'',
      ''            print('' @ [CHR 0x22, CHR 0xE2, CHR 0x9D, CHR 0x8C] @ '' Aucune donn'' @ [CHR 0xC3, CHR 0xA9] @ ''e '' @ [CHR 0xC3, CHR 0xA0] @ '' analyser'' @ [CHR 0x22] @ '')\<newline>'',
      ''            return\<newline>'',
      ''        \<newline>'',
      ''        print('' @ [CHR 0x22] @ ''='' @ [CHR 0x22] @ '' * 60)\<newline>'',
      ''        print('' @ [CHR 0x22, CHR 0xF0, CHR 0x9F, CHR 0x93, CHR 0x8A] @ '' R'' @ [CHR 0xC3, CHR 0x89] @ ''SUM'' @ [CHR 0xC3, CHR 0x89] @ '' COMPLET DES DONN'' @ [CHR 0xC3, CHR 0x89] @ ''ES'' @ [CHR 0x22] @ '')\<newline>'',
      ''        print('' @ [CHR 0x22] @ ''='' @ [CHR 0x22] @ '' * 60)\<newline>'',
      ''        \<newline>'',
      ''        # Informations basiques\<newline>'',
      ''        print(f'' @ [CHR 0x22] @ ''\<newline>'',
      [CHR 0xF0, CHR 0x9F, CHR 0x93, CHR 0x8B] @ '' Dimensions: {self.data.shape[0]} lignes '' @ [CHR 0xC3, CHR 0x97] @ '' {self.data.shape[1]} colonnes'' @ [CHR 0x22] @ '')\<newline>'',
      ''        print(f'' @ [CHR 0x22, CHR 0xF0, CHR 0x9F, CHR 0x93, CHR 0x85] @ '' P'' @ [CHR 0xC3, CHR 0xA9] @ ''riode: {self.data.index.min()} '' @ [CHR 0xC3, CHR 0xA0] @ '' {self.data.index.max()}'' @ [CHR 0x22] @ '' \<newline>'',
      ''              if hasattr(self.data.index, '' @ [CHR 0x27] @ ''min'' @ [CHR 0x27] @ '') else '' @ [CHR 0x22, CHR 0xF0, CHR 0x9F, CHR 0x93, CHR 0x85] @ '' P'' @ [CHR 0xC3, CHR 0xA9] @ ''riode: Non sp'' @ [CHR 0xC3, CHR 0xA9] @ ''cifi'' @ [CHR 0xC3, CHR 0xA9] @ ''e'' @ [CHR 0x22] @ '')\<newline>'',
      ''        \<newline>'',
      ''        # Types de donn'' @ [CHR 0xC3, CHR 0xA9] @ ''es\<newline>'',
      ''        print('' @ [CHR 0x22] @ ''\<newline>'',
      [CHR 0xF0, CHR 0x9F, CHR 0x8E, CHR 0xAF] @ '' TYPES DE DONN'' @ [CHR 0xC3, CHR 0x89] @ ''ES:'' @ [CHR 0x22] @ '')\<newline>'',
      ''        print(self.data.dtypes)\<newline>'',
      ''        \<newline>'',
      ''        # Statistiques descriptives\<newline>'',
      ''        print('' @ [CHR 0x22] @ ''\<newline>'',
      [CHR 0xF0, CHR 0x9F, CHR 0x93, CHR 0x88] @ '' STATISTIQUES DESCRIPTIVES:'' @ [CHR 0x22] @ '')\<newline>'',
      ''        print(self.data.describe(include='' @ [CHR 0x27] @ ''all'' @ [CHR 0x27] @ ''))\<newline>'',
      ''        \<newline>'',
      ''        # Valeurs manquantes\<newline>'',
      ''        valeurs_manquantes = self.data.isnull().sum()\<newline>'',
      ''        if valeurs_manquantes.any():\<newline>'',
      ''            print(f'' @ [CHR 0x22] @ ''\<newline>'',
      [CHR 0xE2, CHR 0x9A, CHR 0xA0, CHR 0xEF, CHR 0xB8, CHR 0x8F] @ ''  VALEURS MANQUANTES:'' @ [CHR 0x22] @ '')\<newline>'',
      ''            for col, nb in valeurs_manquantes[valeurs_manquantes > 0].items():\<newline>'',
      ''                pourcentage = (nb / len(self.data)) * 100\<newline>'',
      ''                print(f'' @ [CHR 0x22] @ ''  {col}: {nb} valeurs ({pourcentage:.1f}%)'' @ [CHR 0x22] @ '')\<newline>'',
      ''        \<newline>'',
      ''        # Valeurs uniques\<newline>'',
      ''        print('' @ [CHR 0x22] @ ''\<newline>'',
      [CHR 0xF0, CHR 0x9F, CHR 0x94, CHR 0x8D] @ '' VALEURS UNIQUES (top 5 par colonne):'' @ [CHR 0x22] @ '')\<newline>'',
      ''        for col in self.data.columns:\<newline>'',
      ''            if self.data[col].dtype == '' @ [CHR 0x27] @ ''object'' @ [CHR 0x27] @ '' or self.data[col].nunique() < 10:\<newline>'',
      ''                uniques = self.data[col].unique()[:5]\<newline>'',
      ''                print(f'' @ [CHR 0x22] @ ''  {col}: {len(uniques)} valeurs uniques '' @ [CHR 0xE2, CHR 0x86, CHR 0x92] @ '' {uniques}'' @ [CHR 0x22] @ '')\<newline>'',
      ''    \<newline>'',
      ''    def analyse_exploratoire(self):\<newline>'',
      ''        '' @ [CHR 0x27, CHR 0x27, CHR 0x27] @ ''Effectue une analyse exploratoire des donn'' @ [CHR 0xC3, CHR 0xA9] @ ''es'' @ [CHR 0x27, CHR 0x27, CHR 0x27] @ ''\<newline>'',
      ''        if self.data.empty:\<newline>'',
      ''            return\<newline>'',
      ''        \<newline>'',
      ''        print('' @ [CHR 0x22] @ ''\<newline>'',
      [CHR 0x22] @ '' + '' @ [CHR 0x22] @ ''='' @ [CHR 0x22] @ '' * 60)\<newline>'',
      ''        print('' @ [CHR 0x22, CHR 0xF0, CHR 0x9F, CHR 0x94, CHR 0x8E] @ '' ANALYSE EXPLORATOIRE'' @ [CHR 0x22] @ '')\<newline>'',
      ''        print('' @ [CHR 0x22] @ ''='' @ [CHR 0x22] @ '' * 60)\<newline>'',
      ''        \<newline>'',
      ''        # Corr'' @ [CHR 0xC3, CHR 0xA9] @ ''lations\<newline>'',
      ''        if len(self.data.select_dtypes(include=[np.number]).columns) > 1:\<newline>'',
      ''            correlations = self.data.corr(numeric_only=True)\<newline>'',
      ''            print('' @ [CHR 0x22] @ ''\<newline>'',
      [CHR 0xF0, CHR 0x9F, CHR 0x93, CHR 0x8A] @ '' MATRICE DE CORR'' @ [CHR 0xC3, CHR 0x89] @ ''LATION:'' @ [CHR 0x22] @ '')\<newline>'',
      ''            print(correlations)\<newline>'',
      ''            \<newline>'',
      ''            # Corr'' @ [CHR 0xC3, CHR 0xA9] @ ''lations fortes\<newline>'',
      ''            strong_corr = []\<newline>'',
      ''            for i in range(len(correlations.columns)):\<newline>'',
      ''                for j in range(i+1, len(correlations.columns)):\<newline>'',
      ''                    if abs(correlations.iloc[i, j]) > 0.7:\<newline>'',
      ''                        strong_corr.append((\<newline>'',
      ''                            correlations.columns[i],\<newline>'',
      ''                            correlations.columns[j],\<newline>'',
      ''                            correlations.iloc[i, j]\<newline>'',
      ''                        ))\<newline>'',
      ''            \<newline>'',
      ''            if strong_corr:\<newline>'',
      ''                print('' @ [CHR 0x22] @ ''\<newline>'',
      [CHR 0xF0, CHR 0x9F, CHR 0x94, CHR 0x97] @ '' CORR'' @ [CHR 0xC3, CHR 0x89] @ ''LATIONS FORTES (|r| > 0.7):'' @ [CHR 0x22] @ '')\<newline>'',
      ''                for var1, var2, corr in strong_corr:\<newline>'',
      ''                    print(f'' @ [CHR 0x22] @ ''  {var1} '' @ [CHR 0xE2, CHR 0x86, CHR 0x94] @ '' {var2}: {corr:.3f}'' @ [CHR 0x22] @ '')\<newline>'',
      ''        \<newline>'',
      ''        # Distributions\<newline>'',
      ''        print('' @ [CHR 0x22] @ ''\<newline>'',
      [CHR 0xF0, CHR 0x9F, CHR 0x93, CHR 0x8F] @ '' DISTRIBUTIONS:'' @ [CHR 0x22] @ '')\<newline>'',
      ''        numeric_cols = self.data.select_dtypes(include=[np.number]).columns\<newline>'',
      ''        for col in numeric_cols[:5]:  # Limite aux 5 premi'' @ [CHR 0xC3, CHR 0xA8] @ ''res colonnes\<newline>'',
      ''            skewness = self.data[col].skew()\<newline>'',
      ''            kurtosis = self.data[col].kurtosis()\<newline>'',
      ''            \<newline>'',
      ''            distribution_type = '' @ [CHR 0x22] @ ''Normale'' @ [CHR 0x22] @ ''\<newline>'',
      ''            if abs(skewness) > 1:\<newline>'',
      ''                distribution_type = '' @ [CHR 0x22] @ ''Asym'' @ [CHR 0xC3, CHR 0xA9] @ ''trique'' @ [CHR 0x22] @ ''\<newline>'',
      ''            if abs(kurtosis) > 3:\<newline>'',
      ''                distribution_type += '' @ [CHR 0x22] @ '' '' @ [CHR 0xC3, CHR 0xA0] @ '' queue '' @ [CHR 0xC3, CHR 0xA9] @ ''paisse'' @ [CHR 0x22] @ ''\<newline>'',
      ''            \<newline>'',
      ''            print(f'' @ [CHR 0x22] @ ''  {col}: Skewness={skewness:.2f}, Kurtosis={kurtosis:.2f} '' @ [CHR 0xE2, CHR 0x86, CHR 0x92] @ '' {distribution_type}'' @ [CHR 0x22] @ '')\<newline>'',
      ''    \<newline>'',
      ''    def tests_statistiques(self):\<newline>'',
      ''        '' @ [CHR 0x27, CHR 0x27, CHR 0x27] @ ''Effectue des tests statistiques'' @ [CHR 0x27, CHR 0x27, CHR 0x27] @ ''\<newline>'',
      ''        if self.data.empty:\<newline>'',
      ''            return\<newline>'',
      ''        \<newline>'',
      ''        numeric_cols = self.data.select_dtypes(include=[np.number]).columns.tolist()\<newline>'',
      ''        \<newline>'',
      ''        if len(numeric_cols) >= 2:\<newline>'',
      ''            print('' @ [CHR 0x22] @ ''\<newline>'',
      [CHR 0x22] @ '' + '' @ [CHR 0x22] @ ''='' @ [CHR 0x22] @ '' * 60)\<newline>'',
      ''            print('' @ [CHR 0x22, CHR 0xF0, CHR 0x9F, CHR 0xA7, CHR 0xAA] @ '' TESTS STATISTIQUES'' @ [CHR 0x22] @ '')\<newline>'',
      ''            print('' @ [CHR 0x22] @ ''='' @ [CHR 0x22] @ '' * 60)\<newline>'',
      ''            \<newline>'',
      ''            # Test de normalit'' @ [CHR 0xC3, CHR 0xA9] @ '' (Shapiro-Wilk)\<newline>'',
      ''            print('' @ [CHR 0x22] @ ''\<newline>'',
      [CHR 0xF0, CHR 0x9F, CHR 0x93, CHR 0x8A] @ '' TEST DE NORMALIT'' @ [CHR 0xC3, CHR 0x89] @ '' (Shapiro-Wilk):'' @ [CHR 0x22] @ '')\<newline>'',
      ''            for col in numeric_cols[:3]:  # Limite aux 3 premi'' @ [CHR 0xC3, CHR 0xA8] @ ''res colonnes\<newline>'',
      ''                data_clean = self.data[col].dropna()\<newline>'',
      ''                if len(data_clean) >= 3 and len(data_clean) <= 5000:\<newline>'',
      ''                    stat, p_value = stats.shapiro(data_clean)\<newline>'',
      ''                    normal = '' @ [CHR 0x22] @ ''Normal'' @ [CHR 0x22] @ '' if p_value > 0.05 else '' @ [CHR 0x22] @ ''Non-normal'' @ [CHR 0x22] @ ''\<newline>'',
      ''                    print(f'' @ [CHR 0x22] @ ''  {col}: W={stat:.3f}, p={p_value:.3e} '' @ [CHR 0xE2, CHR 0x86, CHR 0x92] @ '' {normal}'' @ [CHR 0x22] @ '')\<newline>'',
      ''            \<newline>'',
      ''            # Test T pour '' @ [CHR 0xC3, CHR 0xA9] @ ''chantillons ind'' @ [CHR 0xC3, CHR 0xA9] @ ''pendants\<newline>'',
      ''            if len(numeric_cols) >= 2:\<newline>'',
      ''                print('' @ [CHR 0x22] @ ''\<newline>'',
      [CHR 0xF0, CHR 0x9F, CHR 0x93, CHR 0x88] @ '' TEST T ('' @ [CHR 0xC3, CHR 0xA9] @ ''chantillons ind'' @ [CHR 0xC3, CHR 0xA9] @ ''pendants):'' @ [CHR 0x22] @ '')\<newline>'',
      ''                col1, col2 = numeric_cols[0], numeric_cols[1]\<newline>'',
      ''                t_stat, p_value = stats.ttest_ind(\<newline>'',
      ''                    self.data[col1].dropna(),\<newline>'',
      ''                    self.data[col2].dropna(),\<newline>'',
      ''                    nan_policy='' @ [CHR 0x27] @ ''omit'' @ [CHR 0x27] @ ''\<newline>'',
      ''                )\<newline>'',
      ''                difference = '' @ [CHR 0x22] @ ''Diff'' @ [CHR 0xC3, CHR 0xA9] @ ''rence significative'' @ [CHR 0x22] @ '' if p_value < 0.05 else '' @ [CHR 0x22] @ ''Pas de diff'' @ [CHR 0xC3, CHR 0xA9] @ ''rence significative'' @ [CHR 0x22] @ ''\<newline>'',
      ''                print(f'' @ [CHR 0x22] @ ''  {col1} vs {col2}: t={t_stat:.3f}, p={p_value:.3e} '' @ [CHR 0xE2, CHR 0x86, CHR 0x92] @ '' {difference}'' @ [CHR 0x22] @ '')\<newline>'',
      ''    \<newline>'',
      ''    def visualisations(self, save=False):\<newline>'',
      ''        '' @ [CHR 0x27, CHR 0x27, CHR 0x27] @ ''G'' @ [CHR 0xC3, CHR 0xA9] @ ''n'' @ [CHR 0xC3, CHR 0xA8] @ ''re des visualisations'' @ [CHR 0x27, CHR 0x27, CHR 0x27] @ ''\<newline>'',
      ''        if self.data.empty:\<newline>'',
      ''            return\<newline>'',
      ''        \<newline>'',
      ''        numeric_cols = self.data.select_dtypes(include=[np.number]).columns.tolist()\<newline>'',
      ''        categoric_cols = self.data.select_dtypes(include=['' @ [CHR 0x27] @ ''object'' @ [CHR 0x27] @ '', '' @ [CHR 0x27] @ ''category'' @ [CHR 0x27] @ '']).columns.tolist()\<newline>'',
      ''        \<newline>'',
      ''        print('' @ [CHR 0x22] @ ''\<newline>'',
      [CHR 0x22] @ '' + '' @ [CHR 0x22] @ ''='' @ [CHR 0x22] @ '' * 60)\<newline>'',
      ''        print('' @ [CHR 0x22, CHR 0xF0, CHR 0x9F, CHR 0x8E, CHR 0xA8] @ '' G'' @ [CHR 0xC3, CHR 0x89] @ ''N'' @ [CHR 0xC3, CHR 0x89] @ ''RATION DE VISUALISATIONS'' @ [CHR 0x22] @ '')\<newline>'',
      ''        print('' @ [CHR 0x22] @ ''='' @ [CHR 0x22] @ '' * 60)\<newline>'',
      ''        \<newline>'',
      ''        # Configuration du style\<newline>'',
      ''        plt.style.use('' @ [CHR 0x27] @ ''seaborn-v0_8-darkgrid'' @ [CHR 0x27] @ '')\<newline>'',
      ''        sns.set_palette('' @ [CHR 0x22] @ ''husl'' @ [CHR 0x22] @ '')\<newline>'',
      ''        \<newline>'',
      ''        # 1. Histogrammes\<newline>'',
      ''        if numeric_cols:\<newline>'',
      ''            fig, axes = plt.subplots(1, min(3, len(numeric_cols)), figsize=(15, 4))\<newline>'',
      ''            axes = axes if isinstance(axes, np.ndarray) else [axes]\<newline>'',
      ''            \<newline>'',
      ''            for idx, col in enumerate(numeric_cols[:3]):\<newline>'',
      ''                ax = axes[idx]\<newline>'',
      ''                self.data[col].hist(ax=ax, bins=30, edgecolor='' @ [CHR 0x27] @ ''black'' @ [CHR 0x27] @ '')\<newline>'',
      ''                ax.set_title(f'' @ [CHR 0x27] @ ''Distribution de {col}'' @ [CHR 0x27] @ '')\<newline>'',
      ''                ax.set_xlabel(col)\<newline>'',
      ''                ax.set_ylabel('' @ [CHR 0x27] @ ''Fr'' @ [CHR 0xC3, CHR 0xA9] @ ''quence'' @ [CHR 0x27] @ '')\<newline>'',
      ''            \<newline>'',
      ''            plt.tight_layout()\<newline>'',
      ''            if save:\<newline>'',
      ''                plt.savefig('' @ [CHR 0x27] @ ''histogrammes.png'' @ [CHR 0x27] @ '', dpi=300, bbox_inches='' @ [CHR 0x27] @ ''tight'' @ [CHR 0x27] @ '')\<newline>'',
      ''            plt.show()\<newline>'',
      ''        \<newline>'',
      ''        # 2. Boxplots\<newline>'',
      ''        if numeric_cols:\<newline>'',
      ''            fig, axes = plt.subplots(1, min(3, len(numeric_cols)), figsize=(15, 4))\<newline>'',
      ''            axes = axes if isinstance(axes, np.ndarray) else [axes]\<newline>'',
      ''            \<newline>'',
      ''            for idx, col in enumerate(numeric_cols[:3]):\<newline>'',
      ''                ax = axes[idx]\<newline>'',
      ''                ax.boxplot(self.data[col].dropna())\<newline>'',
      ''                ax.set_title(f'' @ [CHR 0x27] @ ''Boxplot de {col}'' @ [CHR 0x27] @ '')\<newline>'',
      ''                ax.set_ylabel(col)\<newline>'',
      ''            \<newline>'',
      ''            plt.tight_layout()\<newline>'',
      ''            if save:\<newline>'',
      ''                plt.savefig('' @ [CHR 0x27] @ ''boxplots.png'' @ [CHR 0x27] @ '', dpi=300, bbox_inches='' @ [CHR 0x27] @ ''tight'' @ [CHR 0x27] @ '')\<newline>'',
      ''            plt.show()\<newline>'',
      ''        \<newline>'',
      ''        # 3. Matrice de corr'' @ [CHR 0xC3, CHR 0xA9] @ ''lation (heatmap)\<newline>'',
      ''        if len(numeric_cols) > 1:\<newline>'',
      ''            corr_matrix = self.data[numeric_cols].corr()\<newline>'',
      ''            \<newline>'',
      ''            plt.figure(figsize=(10, 8))\<newline>'',
      ''            sns.heatmap(corr_matrix, annot=True, cmap='' @ [CHR 0x27] @ ''coolwarm'' @ [CHR 0x27] @ '', center=0,\<newline>'',
      ''                       square=True, linewidths=1, cbar_kws={'' @ [CHR 0x22] @ ''shrink'' @ [CHR 0x22] @ '': 0.8})\<newline>'',
      ''            plt.title('' @ [CHR 0x27] @ ''Matrice de Corr'' @ [CHR 0xC3, CHR 0xA9] @ ''lation'' @ [CHR 0x27] @ '', fontsize=16, pad=20)\<newline>'',
      ''            plt.tight_layout()\<newline>'',
      ''            if save:\<newline>'',
      ''                plt.savefig('' @ [CHR 0x27] @ ''correlation_heatmap.png'' @ [CHR 0x27] @ '', dpi=300, bbox_inches='' @ [CHR 0x27] @ ''tight'' @ [CHR 0x27] @ '')\<newline>'',
      ''            plt.show()\<newline>'',
      ''        \<newline>'',
      ''        # 4. Scatter plot si au moins 2 variables num'' @ [CHR 0xC3, CHR 0xA9] @ ''riques\<newline>'',
      ''        if len(numeric_cols) >= 2:\<newline>'',
      ''            plt.figure(figsize=(10, 6))\<newline>'',
      ''            plt.scatter(self.data[numeric_cols[0]], self.data[numeric_cols[1]],\<newline>'',
      ''                       alpha=0.6, edgecolors='' @ [CHR 0x27] @ ''w'' @ [CHR 0x27] @ '', s=50)\<newline>'',
      ''            \<newline>'',
      ''            # R'' @ [CHR 0xC3, CHR 0xA9] @ ''gression lin'' @ [CHR 0xC3, CHR 0xA9] @ ''aire\<newline>'',
      ''            x = self.data[numeric_cols[0]].dropna()\<newline>'',
      ''            y = self.data[numeric_cols[1]].dropna()\<newline>'',
      ''            if len(x) == len(y) and len(x) > 1:\<newline>'',
      ''                slope, intercept, r_value, p_value, std_err = stats.linregress(x, y)\<newline>'',
      ''                plt.plot(x, intercept + slope*x, '' @ [CHR 0x27] @ ''r-'' @ [CHR 0x27] @ '', linewidth=2,\<newline>'',
      ''                        label=f'' @ [CHR 0x27] @ ''R'' @ [CHR 0xC3, CHR 0xA9] @ ''gression: r={r_value:.3f}, p={p_value:.3e}'' @ [CHR 0x27] @ '')\<newline>'',
      ''                plt.legend()\<newline>'',
      ''            \<newline>'',
      ''            plt.xlabel(numeric_cols[0])\<newline>'',
      ''            plt.ylabel(numeric_cols[1])\<newline>'',
      ''            plt.title(f'' @ [CHR 0x27] @ ''Relation entre {numeric_cols[0]} et {numeric_cols[1]}'' @ [CHR 0x27] @ '', fontsize=14)\<newline>'',
      ''            plt.grid(True, alpha=0.3)\<newline>'',
      ''            \<newline>'',
      ''            if save:\<newline>'',
      ''                plt.savefig('' @ [CHR 0x27] @ ''scatter_plot.png'' @ [CHR 0x27] @ '', dpi=300, bbox_inches='' @ [CHR 0x27] @ ''tight'' @ [CHR 0x27] @ '')\<newline>'',
      ''            plt.show()\<newline>'',
      ''    \<newline>'',
      ''    def rapport_complet(self, fichier_sortie='' @ [CHR 0x27] @ ''rapport_statistiques.txt'' @ [CHR 0x27] @ ''):\<newline>'',
      ''        '' @ [CHR 0x27, CHR 0x27, CHR 0x27] @ ''G'' @ [CHR 0xC3, CHR 0xA9] @ ''n'' @ [CHR 0xC3, CHR 0xA8] @ ''re un rapport complet des analyses'' @ [CHR 0x27, CHR 0x27, CHR 0x27] @ ''\<newline>'',
      ''        import io\<newline>'',
      ''        \<newline>'',
      ''        # Capture de la sortie\<newline>'',
      ''        old_stdout = sys.stdout\<newline>'',
      ''        sys.stdout = buffer = io.StringIO()\<newline>'',
      ''        \<newline>'',
      ''        try:\<newline>'',
      ''            # Ex'' @ [CHR 0xC3, CHR 0xA9] @ ''cute toutes les analyses\<newline>'',
      ''            self.resume_complet()\<newline>'',
      ''            self.analyse_exploratoire()\<newline>'',
      ''            self.tests_statistiques()\<newline>'',
      ''            \<newline>'',
      ''            # Sauvegarde le rapport\<newline>'',
      ''            with open(fichier_sortie, '' @ [CHR 0x27] @ ''w'' @ [CHR 0x27] @ '', encoding='' @ [CHR 0x27] @ ''utf-8'' @ [CHR 0x27] @ '') as f:\<newline>'',
      ''                f.write(buffer.getvalue())\<newline>'',
      ''            \<newline>'',
      ''            print(f'' @ [CHR 0x22] @ ''\<newline>'',
      [CHR 0xE2, CHR 0x9C, CHR 0x85] @ '' Rapport sauvegard'' @ [CHR 0xC3, CHR 0xA9] @ '' dans: {fichier_sortie}'' @ [CHR 0x22] @ '')\<newline>'',
      ''            \<newline>'',
      ''        finally:\<newline>'',
      ''            sys.stdout = old_stdout\<newline>'',
      ''        \<newline>'',
      ''        # Affiche le rapport\<newline>'',
      ''        print(buffer.getvalue())\<newline>'',
      ''\<newline>'',
      ''# =============================================\<newline>'',
      ''# EXEMPLE D'' @ [CHR 0x27] @ ''UTILISATION\<newline>'',
      ''# =============================================\<newline>'',
      ''if __name__ == '' @ [CHR 0x22] @ ''__main__'' @ [CHR 0x22] @ '':\<newline>'',
      ''    print('' @ [CHR 0x22] @ ''='' @ [CHR 0x22] @ '' * 60)\<newline>'',
      ''    print('' @ [CHR 0x22, CHR 0xF0, CHR 0x9F, CHR 0x93, CHR 0x8A] @ '' ANALYSE STATISTIQUE AVANC'' @ [CHR 0xC3, CHR 0x89] @ ''E - PROMETHEUS AI'' @ [CHR 0x22] @ '')\<newline>'',
      ''    print('' @ [CHR 0x22] @ ''='' @ [CHR 0x22] @ '' * 60)\<newline>'',
      ''    \<newline>'',
      ''    # Option 1: Donn'' @ [CHR 0xC3, CHR 0xA9] @ ''es d'' @ [CHR 0x27] @ ''exemple\<newline>'',
      ''    donnees_exemple = {\<newline>'',
      ''        '' @ [CHR 0x27] @ ''Age'' @ [CHR 0x27] @ '': [25, 30, 35, 40, 45, 50, 55, 60, 65, 70],\<newline>'',
      ''        '' @ [CHR 0x27] @ ''Salaire'' @ [CHR 0x27] @ '': [30000, 35000, 40000, 45000, 50000, 55000, 60000, 65000, 70000, 75000],\<newline>'',
      ''        '' @ [CHR 0x27] @ ''Experience'' @ [CHR 0x27] @ '': [1, 3, 5, 7, 9, 11, 13, 15, 17, 19],\<newline>'',
      ''        '' @ [CHR 0x27] @ ''Genre'' @ [CHR 0x27] @ '': ['' @ [CHR 0x27] @ ''M'' @ [CHR 0x27] @ '', '' @ [CHR 0x27] @ ''F'' @ [CHR 0x27] @ '', '' @ [CHR 0x27] @ ''M'' @ [CHR 0x27] @ '', '' @ [CHR 0x27] @ ''F'' @ [CHR 0x27] @ '', '' @ [CHR 0x27] @ ''M'' @ [CHR 0x27] @ '', '' @ [CHR 0x27] @ ''F'' @ [CHR 0x27] @ '', '' @ [CHR 0x27] @ ''M'' @ [CHR 0x27] @ '', '' @ [CHR 0x27] @ ''F'' @ [CHR 0x27] @ '', '' @ [CHR 0x27] @ ''M'' @ [CHR 0x27] @ '', '' @ [CHR 0x27] @ ''F'' @ [CHR 0x27] @ ''],\<newline>'',
      ''        '' @ [CHR 0x27] @ ''Satisfaction'' @ [CHR 0x27] @ '': [3, 4, 5, 4, 3, 5, 4, 3, 5, 4]\<newline>'',
      ''    }\<newline>'',
      ''    \<newline>'',
      ''    # Option 2: Charger depuis un fichier\<newline>'',
      ''    # analyse = AnalyseStatistiques(fichier='' @ [CHR 0x27] @ ''donnees.csv'' @ [CHR 0x27] @ '')\<newline>'',
      ''    \<newline>'',
      ''    # Cr'' @ [CHR 0xC3, CHR 0xA9] @ ''ation de l'' @ [CHR 0x27] @ ''analyseur\<newline>'',
      ''    analyse = AnalyseStatistiques(data=donnees_exemple)\<newline>'',
      ''    \<newline>'',
      ''    # Ex'' @ [CHR 0xC3, CHR 0xA9] @ ''cution des analyses\<newline>'',
      ''    analyse.rapport_complet()\<newline>'',
      ''    \<newline>'',
      ''    # G'' @ [CHR 0xC3, CHR 0xA9] @ ''n'' @ [CHR 0xC3, CHR 0xA9] @ ''ration des visualisations\<newline>'',
      ''    print('' @ [CHR 0x22] @ ''\<newline>'',
      [CHR 0xF0, CHR 0x9F, CHR 0x8E, CHR 0xA8] @ '' G'' @ [CHR 0xC3, CHR 0xA9] @ ''n'' @ [CHR 0xC3, CHR 0xA9] @ ''ration des graphiques...'' @ [CHR 0x22] @ '')\<newline>'',
      ''    analyse.visualisations(save=True)\<newline>'',
      ''    \<newline>'',
      ''    print('' @ [CHR 0x22] @ ''\<newline>'',
      [CHR 0x22] @ '' + '' @ [CHR 0x22] @ ''='' @ [CHR 0x22] @ '' * 60)\<newline>'',
      ''    print('' @ [CHR 0x22, CHR 0xE2, CHR 0x9C, CHR 0x85] @ '' ANALYSE TERMIN'' @ [CHR 0xC3, CHR 0x89] @ ''E AVEC SUCC'' @ [CHR 0xC3, CHR 0x88] @ ''S!'' @ [CHR 0x22] @ '')\<newline>'',
      ''    print('' @ [CHR 0x22] @ ''='' @ [CHR 0x22] @ '' * 60)\<newline>'',
      ''    \<newline>'',
      ''    # Suggestions d'' @ [CHR 0x27] @ ''analyses suppl'' @ [CHR 0xC3, CHR 0xA9] @ ''mentaires\<newline>'',
      ''    print('' @ [CHR 0x22] @ ''\<newline>'',
      [CHR 0xF0, CHR 0x9F, CHR 0x92, CHR 0xA1] @ '' SUGGESTIONS D'' @ [CHR 0x27] @ ''ANALYSES SUPPL'' @ [CHR 0xC3, CHR 0x89] @ ''MENTAIRES:'' @ [CHR 0x22] @ '')\<newline>'',
      ''    print('' @ [CHR 0x22] @ ''  1. Analyse de variance (ANOVA)'' @ [CHR 0x22] @ '')\<newline>'',
      ''    print('' @ [CHR 0x22] @ ''  2. R'' @ [CHR 0xC3, CHR 0xA9] @ ''gression lin'' @ [CHR 0xC3, CHR 0xA9] @ ''aire multiple'' @ [CHR 0x22] @ '')\<newline>'',
      ''    print('' @ [CHR 0x22] @ ''  3. Analyse en composantes principales (PCA)'' @ [CHR 0x22] @ '')\<newline>'',
      ''    print('' @ [CHR 0x22] @ ''  4. Clustering (K-means, DBSCAN)'' @ [CHR 0x22] @ '')\<newline>'',
      ''    print('' @ [CHR 0x22] @ ''  5. S'' @ [CHR 0xC3, CHR 0xA9] @ ''ries temporelles (ARIMA, Prophet)'' @ [CHR 0x22] @ '')\<newline>'',
      ''    \<newline>'',
      ''    # Commandes pour installer les d'' @ [CHR 0xC3, CHR 0xA9] @ ''pendances manquantes\<newline>'',
      ''    print('' @ [CHR 0x22] @ ''\<newline>'',
      [CHR 0xF0, CHR 0x9F, CHR 0x93, CHR 0xA6] @ '' INSTALLATION DES D'' @ [CHR 0xC3, CHR 0x89] @ ''PENDANCES:'' @ [CHR 0x22] @ '')\<newline>'',
      ''    print('' @ [CHR 0x22] @ ''  pip install numpy pandas matplotlib seaborn scipy scikit-learn'' @ [CHR 0x22] @ '')\<newline>'',
      ''    \<newline>'',
      ''    print('' @ [CHR 0x22] @ ''\<newline>'',
      [CHR 0x22] @ '' + '' @ [CHR 0x22] @ ''='' @ [CHR 0x22] @ '' * 60)\<newline>'',
      ''    print('' @ [CHR 0x22, CHR 0xF0, CHR 0x9F, CHR 0x94, CHR 0xA7] @ '' FONCTIONNALIT'' @ [CHR 0xC3, CHR 0x89] @ ''S IMPL'' @ [CHR 0xC3, CHR 0x89] @ ''MENT'' @ [CHR 0xC3, CHR 0x89] @ ''ES:'' @ [CHR 0x22] @ '')\<newline>'',
      ''    print('' @ [CHR 0x22] @ ''  '' @ [CHR 0xE2, CHR 0x80, CHR 0xA2] @ '' Chargement de donn'' @ [CHR 0xC3, CHR 0xA9] @ ''es (CSV, Excel, JSON)'' @ [CHR 0x22] @ '')\<newline>'',
      ''    print('' @ [CHR 0x22] @ ''  '' @ [CHR 0xE2, CHR 0x80, CHR 0xA2] @ '' Analyse descriptive compl'' @ [CHR 0xC3, CHR 0xA8] @ ''te'' @ [CHR 0x22] @ '')\<newline>'',
      ''    print('' @ [CHR 0x22] @ ''  '' @ [CHR 0xE2, CHR 0x80, CHR 0xA2] @ '' Tests statistiques (normalit'' @ [CHR 0xC3, CHR 0xA9] @ '', test-t)'' @ [CHR 0x22] @ '')\<newline>'',
      ''    print('' @ [CHR 0x22] @ ''  '' @ [CHR 0xE2, CHR 0x80, CHR 0xA2] @ '' Visualisations (histogrammes, boxplots, scatter plots)'' @ [CHR 0x22] @ '')\<newline>'',
      ''    print('' @ [CHR 0x22] @ ''  '' @ [CHR 0xE2, CHR 0x80, CHR 0xA2] @ '' G'' @ [CHR 0xC3, CHR 0xA9] @ ''n'' @ [CHR 0xC3, CHR 0xA9] @ ''ration de rapport automatique'' @ [CHR 0x22] @ '')\<newline>'',
      ''    print('' @ [CHR 0x22] @ ''  '' @ [CHR 0xE2, CHR 0x80, CHR 0xA2] @ '' Gestion des valeurs manquantes'' @ [CHR 0x22] @ '')\<newline>'',
      ''    print('' @ [CHR 0x22] @ ''  '' @ [CHR 0xE2, CHR 0x80, CHR 0xA2] @ '' D'' @ [CHR 0xC3, CHR 0xA9] @ ''tection des corr'' @ [CHR 0xC3, CHR 0xA9] @ ''lations'' @ [CHR 0x22] @ '')\<newline>'',
      ''    print('' @ [CHR 0x22] @ ''='' @ [CHR 0x22] @ '' * 60)\<newline>'',
      ''```'']"
definition format_code_response :: "string \<Rightarrow> string \<Rightarrow> string" where
  "format_code_response response0 user_message =
     (let response = strip response0 in
      if any_keyword_in format_keywords (lower user_message) then
        if contains response ''```python'' then
          (case first_python_block response of
             Some block \<Rightarrow> ''```python\<newline>'' @ strip block @ ''\<newline>```''
           | None \<Rightarrow> response)
        else if looks_like_python_code response then
          ''```python\<newline>'' @ response @ ''\<newline>```''
        else generate_statistics_code
      else response)"

definition is_duplicate_response :: "message list \<Rightarrow> string \<Rightarrow> bool" where
  "is_duplicate_response current_conversation new_response =
     (if current_conversation = [] then False
      else
        let ai_messages = filter (\<lambda>msg. role msg = ''assistant'') current_conversation in
        if ai_messages = [] then False
        else lower (strip (content (last ai_messages))) = lower (strip new_response))"


section \<open>The conversation files\<close>

text \<open>
  The conversations directory is a map from paths to file contents. The JSON library
  (\<open>json.dump\<close> with \<open>ensure_ascii=False, indent=2\<close>, \<open>json.loads\<close>), the UTF-8 decoding of
  a file opened as text, the clock and the wall time belong to the environment of a run.
  \<open>json.loads\<close> returns a value, raises \<open>JSONDecodeError\<close>, or, on a text nested too
  deeply for the interpreter, raises \<open>RecursionError\<close>.
\<close>

datatype decoded = Decoded pyval | JSON_decode_error | Recursion_error

record conversation =
  conv_id :: string
  title :: string
  messages :: "message list"
  saved_at :: string

record env =
  dumps :: "conversation \<Rightarrow> string"
  loads :: "string \<Rightarrow> decoded"
  utf8_decodes :: "string \<Rightarrow> bool"
  message_time :: string
  save_time :: string
  load_time :: string
  unix_time :: nat

type_synonym disk = "string \<rightharpoonup> string"

text \<open>\<open>os.path.join\<close> on POSIX, for a directory name that does not end in a slash.\<close>

definition path_join :: "string \<Rightarrow> string \<Rightarrow> string" where
  "path_join dir name = (if startswith name ''/'' then name else dir @ ''/'' @ name)"

definition conversations_dir :: string where
  "conversations_dir = ''conversations''"

definition conversation_path :: "string \<Rightarrow> string" where
  "conversation_path cid = path_join conversations_dir (cid @ ''.json'')"

text \<open>
  \<open>ConversationManager.save_conversation\<close>, one file-system call at a time, so that a run
  can be cut between two calls: opening the temporary file for writing (which creates or
  empties it), writing the serialised conversation and closing, removing the target if
  it exists, renaming the temporary file into place. A missing source makes \<open>os.rename\<close>
  raise, which the handler turns into the result \<open>False\<close>.
\<close>

datatype save_pc = Open_temp | Dump_temp | Remove_old | Rename_temp | Returned bool

fun save_step :: "string \<Rightarrow> string \<Rightarrow> save_pc \<times> disk \<Rightarrow> save_pc \<times> disk" where
  "save_step file_path text (Open_temp, d) = (Dump_temp, d(file_path @ ''.tmp'' \<mapsto> []))"
| "save_step file_path text (Dump_temp, d) = (Remove_old, d(file_path @ ''.tmp'' \<mapsto> text))"
| "save_step file_path text (Remove_old, d) =
     (Rename_temp, if d file_path \<noteq> None then d(file_path := None) else d)"
| "save_step file_path text (Rename_temp, d) =
     (case d (file_path @ ''.tmp'') of
        None \<Rightarrow> (Returned False, d)
      | Some written \<Rightarrow> (Returned True, (d(file_path \<mapsto> written))(file_path @ ''.tmp'' := None)))"
| "save_step file_path text (Returned b, d) = (Returned b, d)"

text \<open>The first \<open>n\<close> file-system calls of a save that starts on the disk \<open>d\<close>.\<close>

primrec save_run :: "nat \<Rightarrow> string \<Rightarrow> string \<Rightarrow> disk \<Rightarrow> save_pc \<times> disk" where
  "save_run 0 file_path text d = (Open_temp, d)"
| "save_run (Suc n) file_path text d = save_step file_path text (save_run n file_path text d)"

text \<open>The whole of \<open>ConversationManager.save_conversation\<close>: its four calls.\<close>

definition save_conversation :: "env \<Rightarrow> conversation \<Rightarrow> disk \<Rightarrow> bool \<times> disk" where
  "save_conversation e c d =
     (case save_run 4 (conversation_path (conv_id c)) (dumps e c) d of
        (Returned b, d') \<Rightarrow> (b, d')
      | (pc, d') \<Rightarrow> (False, d'))"


subsection \<open>Loading a conversation file\<close>

text \<open>\<open>os.path.basename\<close> and the root of \<open>os.path.splitext\<close>, on POSIX.\<close>

definition basename :: "string \<Rightarrow> string" where
  "basename p = rev (takeWhile (\<lambda>c. c \<noteq> CHR ''/'') (rev p))"

definition splitext_root :: "string \<Rightarrow> string" where
  "splitext_root name =
     (let dots = takeWhile (\<lambda>c. c = CHR ''.'') name;
          rest = dropWhile (\<lambda>c. c = CHR ''.'') name
      in if CHR ''.'' \<in> set rest
         then dots @ rev (tl (dropWhile (\<lambda>c. c \<noteq> CHR ''.'') (rev rest)))
         else name)"

text \<open>\<open>d[key] = value\<close> on the entries of a dictionary: in place, or as a new last entry.\<close>

definition dict_set :: "(string \<times> pyval) list \<Rightarrow> string \<Rightarrow> pyval \<Rightarrow> (string \<times> pyval) list" where
  "dict_set d key v =
     (if map_of d key = None then d @ [(key, v)]
      else map (\<lambda>entry. if fst entry = key then (key, v) else entry) d)"

definition create_default_conversation :: "env \<Rightarrow> string \<Rightarrow> (string \<times> pyval) list" where
  "create_default_conversation e file_path =
     [(''id'', PStr (splitext_root (basename file_path))),
      (''title'', PStr (''Conversation r'' @ [CHR 0xC3, CHR 0xA9] @ ''par'' @ [CHR 0xC3, CHR 0xA9]
                        @ ''e'')),
      (''messages'', PList []),
      (''timestamp'', PStr (load_time e))]"

text \<open>
  \<open>open(file_path, 'r', encoding='utf-8')\<close> and the reading of the text: the file is
  missing, or its bytes are no UTF-8, or it has a text.
\<close>

datatype file_read = No_file | No_utf8 | File_text string

definition read_file :: "env \<Rightarrow> disk \<Rightarrow> string \<Rightarrow> file_read" where
  "read_file e d file_path =
     (case d file_path of
        None \<Rightarrow> No_file
      | Some bytes \<Rightarrow> if utf8_decodes e bytes then File_text bytes else No_utf8)"

text \<open>\<open>os.rename\<close> of an existing file.\<close>

definition rename_file :: "disk \<Rightarrow> string \<Rightarrow> string \<Rightarrow> disk" where
  "rename_file d src dst =
     (case d src of None \<Rightarrow> d | Some bytes \<Rightarrow> (d(src := None))(dst \<mapsto> bytes))"

text \<open>
  \<open>repair_json_file\<close>. Its outer handler catches every exception, so a file that cannot
  be read and a decoder that gives up both lead to the default conversation.
\<close>

definition repair_json_file :: "env \<Rightarrow> string \<Rightarrow> disk \<Rightarrow> pyval \<times> disk" where
  "repair_json_file e file_path d =
     (case read_file e d file_path of
        No_file \<Rightarrow> (PDict (create_default_conversation e file_path), d)
      | No_utf8 \<Rightarrow> (PDict (create_default_conversation e file_path), d)
      | File_text text \<Rightarrow>
          let content = strip text in
          if content = [] then (PDict (create_default_conversation e file_path), d)
          else
            (case loads e content of
               Decoded data \<Rightarrow> (data, d)
             | JSON_decode_error \<Rightarrow>
                 let backup_path = file_path @ ''.backup_'' @ decimal (unix_time e) in
                 (PDict (create_default_conversation e file_path),
                  rename_file d file_path backup_path)
             | Recursion_error \<Rightarrow> (PDict (create_default_conversation e file_path), d)))"

text \<open>The loop over \<open>required_fields\<close>.\<close>

definition fill_field :: "env \<Rightarrow> string \<Rightarrow> (string \<times> pyval) list \<Rightarrow> string \<Rightarrow> (string \<times> pyval) list" where
  "fill_field e file_path data field =
     (if map_of data field = None
      then dict_set data field (dict_get (create_default_conversation e file_path) field)
      else data)"

text \<open>The time stamp of a kept message: set where it is missing or not a string.\<close>

definition stamp_message :: "env \<Rightarrow> (string \<times> pyval) list \<Rightarrow> (string \<times> pyval) list" where
  "stamp_message e msg =
     (case map_of msg ''timestamp'' of
        Some (PStr s) \<Rightarrow> msg
      | _ \<Rightarrow> dict_set msg ''timestamp'' (PStr (load_time e)))"

fun clean_messages :: "env \<Rightarrow> pyval list \<Rightarrow> pyval list" where
  "clean_messages e [] = []"
| "clean_messages e (msg # msgs) =
     (case msg of
        PDict m \<Rightarrow>
          if map_of m ''role'' \<noteq> None \<and> map_of m ''content'' \<noteq> None
          then PDict (stamp_message e m) # clean_messages e msgs
          else clean_messages e msgs
      | _ \<Rightarrow> clean_messages e msgs)"

text \<open>The validation of a decoded dictionary, from \<open>required_fields\<close> to \<open>return data\<close>.\<close>

definition validate_conversation :: "env \<Rightarrow> string \<Rightarrow> (string \<times> pyval) list \<Rightarrow> (string \<times> pyval) list" where
  "validate_conversation e file_path data0 =
     (let data = foldl (fill_field e file_path) data0 [''id'', ''title'', ''messages''] in
      case map_of data ''messages'' of
        Some (PList msgs) \<Rightarrow> dict_set data ''messages'' (PList (clean_messages e msgs))
      | _ \<Rightarrow> dict_set data ''messages'' (PList []))"

text \<open>
  \<open>load_conversation_file\<close>. Its handler catches \<open>JSONDecodeError\<close>, \<open>KeyError\<close> and
  \<open>ValueError\<close>, which covers bytes that are no UTF-8; a missing file and a decoder that
  gives up raise through it.
\<close>

definition load_conversation_file :: "env \<Rightarrow> string \<Rightarrow> disk \<Rightarrow> (py_error + pyval) \<times> disk" where
  "load_conversation_file e file_path d =
     (case read_file e d file_path of
        No_file \<Rightarrow> (Inl (OSError ''No such file or directory''), d)
      | No_utf8 \<Rightarrow> (case repair_json_file e file_path d of (data, d') \<Rightarrow> (Inr data, d'))
      | File_text text \<Rightarrow>
          (case loads e text of
             Recursion_error \<Rightarrow> (Inl (RecursionError ''maximum recursion depth exceeded''), d)
           | JSON_decode_error \<Rightarrow>
               (case repair_json_file e file_path d of (data, d') \<Rightarrow> (Inr data, d'))
           | Decoded data \<Rightarrow>
               (case data of
                  PDict entries \<Rightarrow> (Inr (PDict (validate_conversation e file_path entries)), d)
                | _ \<Rightarrow> (case repair_json_file e file_path d of (data', d') \<Rightarrow> (Inr data', d')))))"

subsection \<open>A loaded conversation, as the specification words it\<close>








section \<open>Displaying a message with its code blocks\<close>

text \<open>
  \<open>extract_code_blocks\<close> scans the message with
  \<open>re.finditer(r'```(\w+)?\s*\n(.*?)```', text, re.DOTALL)\<close>. \<open>\w\<close> is modelled on the ASCII
  range like \<open>\s\<close>. At a position the pattern matches as follows: the opening fence;
  the longest run of word characters (the language, possibly empty); the run of white
  space up to and including its last line feed, which must exist; the shortest run of
  characters up to a closing fence, which must exist too. No other way of cutting the
  message matches where this one fails: a shorter language leaves a word character
  where white space or the line feed is due, and an earlier line feed leaves only white
  space more before the same search for the closing fence.
\<close>

definition is_word :: "char \<Rightarrow> bool" where
  "is_word c =
     (c \<in> set ''abcdefghijklmnopqrstuvwxyzABCDEFGHIJKLMNOPQRSTUVWXYZ0123456789_'')"

text \<open>
  A white-space run, cut after its last line feed: the part \<open>\s*\n\<close> consumes, and the
  rest. \<open>None\<close> where the run has no line feed.
\<close>

fun cut_after_last_newline :: "string \<Rightarrow> (string \<times> string) option" where
  "cut_after_last_newline [] = None"
| "cut_after_last_newline (c # cs) =
     (case cut_after_last_newline cs of
        Some (hd_part, tl_part) \<Rightarrow> Some (c # hd_part, tl_part)
      | None \<Rightarrow> if c = CHR 0x0A then Some ([c], cs) else None)"

text \<open>
  The match of the pattern at the start of \<open>s\<close>: the language group (empty where it
  took no part), the code group, and the length of the whole match.
\<close>

definition match_at :: "string \<Rightarrow> (string \<times> string \<times> nat) option" where
  "match_at s =
     (if startswith s ''```'' then
        let r = drop 3 s;
            word = takeWhile is_word r;
            r1 = dropWhile is_word r;
            spaces = takeWhile isspace r1;
            r2 = dropWhile isspace r1
        in (case cut_after_last_newline spaces of
              None \<Rightarrow> None
            | Some (header_space, more_space) \<Rightarrow>
                (case before_first (more_space @ r2) ''```'' of
                   None \<Rightarrow> None
                 | Some body \<Rightarrow>
                     Some (word, body,
                           3 + length word + length header_space + length body + 3)))
      else None)"

text \<open>A code block as \<open>extract_code_blocks\<close> returns it: \<open>(code, lang, start, end)\<close>.\<close>

type_synonym code_block = "string \<times> string \<times> nat \<times> nat"

text \<open>
  \<open>finditer\<close> from position \<open>pos\<close>, the rest of the text being \<open>s\<close>; the first \<open>skip\<close>
  characters belong to the previous match and start no match of their own.
\<close>

fun find_blocks :: "nat \<Rightarrow> nat \<Rightarrow> string \<Rightarrow> code_block list" where
  "find_blocks skip pos [] = []"
| "find_blocks (Suc skip) pos (c # cs) = find_blocks skip (Suc pos) cs"
| "find_blocks 0 pos (c # cs) =
     (case match_at (c # cs) of
        None \<Rightarrow> find_blocks 0 (Suc pos) cs
      | Some (word, body, len) \<Rightarrow>
          (strip body, if word = [] then ''text'' else word, pos, pos + len)
            # find_blocks (len - 1) (Suc pos) cs)"

definition extract_code_blocks :: "string \<Rightarrow> code_block list" where
  "extract_code_blocks text =
     (let code_blocks = find_blocks 0 0 text in
      if code_blocks = [] \<and> looks_like_python_code text
      then [(strip text, ''python'', 0, length text)]
      else code_blocks)"

text \<open>\<open>message[a:b]\<close> for indices that are not negative.\<close>

definition slice :: "nat \<Rightarrow> nat \<Rightarrow> string \<Rightarrow> string" where
  "slice a b s = take (b - a) (drop a s)"

text \<open>What \<open>display_ai_message_with_code\<close> packs into the content frame.\<close>

datatype widget =
    Text_label string
  | Code_widget string string
  | Full_code_button string string

text \<open>The widgets of one block: the code, and a button for a code of more than 20 lines.\<close>

definition code_widgets :: "string \<Rightarrow> string \<Rightarrow> widget list" where
  "code_widgets code lang =
     Code_widget code lang
       # (if length (split_lines code) > 20 then [Full_code_button code lang] else [])"

text \<open>The loop over the code blocks, with \<open>current_pos\<close>, and the text after the last.\<close>

fun display_blocks :: "nat \<Rightarrow> code_block list \<Rightarrow> string \<Rightarrow> widget list" where
  "display_blocks current_pos [] message =
     (if current_pos < length message then
        let text_after = slice current_pos (length message) message in
        if strip text_after \<noteq> [] then [Text_label text_after] else []
      else [])"
| "display_blocks current_pos ((code, lang, start, end) # blocks) message =
     (if start > current_pos then
        let text_before = slice current_pos start message in
        if strip text_before \<noteq> [] then [Text_label text_before] else []
      else [])
     @ code_widgets code lang
     @ display_blocks end blocks message"

definition display_ai_message_with_code :: "string \<Rightarrow> widget list" where
  "display_ai_message_with_code message =
     (let code_blocks = extract_code_blocks message in
      if code_blocks \<noteq> [] then display_blocks 0 code_blocks message
      else [Text_label message])"

subsection \<open>The segmentation, as the specification words it\<close>







section \<open>The application state\<close>

text \<open>The three kinds of tuples on \<open>response_queue\<close>.\<close>

datatype stream_message = Stream_token string | Stream_end string | Error_message string

text \<open>What the pump does to the chat area, in the order it does it.\<close>

datatype ui_action =
    User_message_displayed string
  | Streaming_label_created
  | Label_config string
  | Frame_destroyed
  | Ai_message_displayed "widget list"
  | Error_displayed string

record app =
  current_conversation :: "message list"
  current_conversation_id :: "string option"
  is_generating :: bool
  stop_generation_flag :: bool
  response_queue :: "stream_message list"
  files :: disk
  model_calls :: "string list"
  streaming_text :: string
  stream_chunks :: "string list"
  stream_dirty :: bool
  label_exists :: bool
  streaming_frame :: bool
  chat_area :: "ui_action list"

definition put :: "stream_message \<Rightarrow> app \<Rightarrow> app" where
  "put m st = st\<lparr>response_queue := response_queue st @ [m]\<rparr>"


definition conversation_title :: "message list \<Rightarrow> string" where
  "conversation_title msgs =
     (case find (\<lambda>msg. role msg = ''user'') msgs of
        None \<Rightarrow> ''Nouvelle discussion''
      | Some msg \<Rightarrow>
          if len_chars (content msg) > 30 then take_chars 30 (content msg) @ ''...''
          else content msg)"

text \<open>
  \<open>PrometheusAI.save_conversation\<close>. The refresh of the side bar that follows the save
  (\<open>load_conversations\<close> and the selection in the list box) is not part of the model.
\<close>

text \<open>
  The identifier after \<open>if not self.current_conversation_id: self.current_conversation_id =
  f"conv_{int(time.time())}"\<close>.
\<close>

definition assigned_id :: "env \<Rightarrow> app \<Rightarrow> string" where
  "assigned_id e st =
     (case current_conversation_id st of
        None \<Rightarrow> ''conv_'' @ decimal (unix_time e)
      | Some i \<Rightarrow> if i = [] then ''conv_'' @ decimal (unix_time e) else i)"

definition save_current :: "env \<Rightarrow> app \<Rightarrow> app" where
  "save_current e st =
     (if current_conversation st = [] then st
      else
        let cid = assigned_id e st;
            data = \<lparr>conv_id = cid, title = conversation_title (current_conversation st),
                    messages = current_conversation st, saved_at = save_time e\<rparr>
        in st\<lparr>current_conversation_id := Some cid,
              files := snd (save_conversation e data (files st))\<rparr>)"

definition append_assistant :: "env \<Rightarrow> string \<Rightarrow> app \<Rightarrow> app" where
  "append_assistant e text st =
     st\<lparr>current_conversation := current_conversation st
          @ [\<lparr>role = ''assistant'', content = text, timestamp = message_time e\<rparr>]\<rparr>"

text \<open>\<open>stop_generation\<close>, on the state it shares with the generation thread.\<close>

definition stop_generation :: "app \<Rightarrow> app" where
  "stop_generation st =
     (if is_generating st then st\<lparr>stop_generation_flag := True, is_generating := False\<rparr>
      else st)"


section \<open>Generating a response\<close>

definition image_keywords :: "string list" where
  "image_keywords =
     [''g'' @ [CHR 0xC3, CHR 0xA9] @ ''n'' @ [CHR 0xC3, CHR 0xA8] @ ''re une image'',
      ''cr'' @ [CHR 0xC3, CHR 0xA9] @ ''e une image'',
      ''g'' @ [CHR 0xC3, CHR 0xA9] @ ''n'' @ [CHR 0xC3, CHR 0xA9] @ ''rer image'',
      ''stable diffusion'',
      ''dall-e'']"

definition image_disclaimer :: string where
  "image_disclaimer =
     [CHR 0xF0, CHR 0x9F, CHR 0x8E, CHR 0xA8] @ '' **G'' @ [CHR 0xC3, CHR 0xA9] @ ''n''
       @ [CHR 0xC3, CHR 0xA9] @ ''ration d'' @ [CHR 0x27] @ ''images**\<newline>\<newline>''
     @ [CHR 0xE2, CHR 0x9D, CHR 0x8C] @ '' **IMPORTANT**: Llama.cpp est un mod''
       @ [CHR 0xC3, CHR 0xA8] @ ''le de TEXTE uniquement. Il ne peut PAS g''
       @ [CHR 0xC3, CHR 0xA9] @ ''n'' @ [CHR 0xC3, CHR 0xA9] @ ''rer d'' @ [CHR 0x27]
       @ ''images.\<newline>\<newline>''
     @ ''**Pour g'' @ [CHR 0xC3, CHR 0xA9] @ ''n'' @ [CHR 0xC3, CHR 0xA9]
       @ ''rer des images, vous avez besoin d'' @ [CHR 0x27]
       @ ''un autre logiciel:**\<newline>''
     @ ''1. **Stable Diffusion** (local, gratuit mais 10-20Go)\<newline>''
     @ ''2. **DALL-E API** (OpenAI, payant)\<newline>''
     @ ''3. **Midjourney** (via Discord, payant)\<newline>\<newline>''
     @ ''Je peux vous donner du code Python pour utiliser ces services, mais je ne peux pas g''
       @ [CHR 0xC3, CHR 0xA9] @ ''n'' @ [CHR 0xC3, CHR 0xA9] @ ''rer d'' @ [CHR 0x27]
       @ ''images moi-m'' @ [CHR 0xC3, CHR 0xAA] @ ''me.''"

definition stopped_by_user :: string where
  "stopped_by_user =
     ''G'' @ [CHR 0xC3, CHR 0xA9] @ ''n'' @ [CHR 0xC3, CHR 0xA9] @ ''ration arr''
     @ [CHR 0xC3, CHR 0xAA] @ ''t'' @ [CHR 0xC3, CHR 0xA9] @ ''e par l'' @ [CHR 0x27]
     @ ''utilisateur''"

definition generation_error :: "py_error \<Rightarrow> string" where
  "generation_error e =
     ''Erreur lors de la g'' @ [CHR 0xC3, CHR 0xA9] @ ''n'' @ [CHR 0xC3, CHR 0xA9]
     @ ''ration: '' @ error_text e"

text \<open>
  What the generation thread meets while it iterates over the model's stream: a chunk
  the model yields, an exception the model raises, or a press of the Stop button, which
  runs \<open>stop_generation\<close> on the user-interface thread between two chunks. A completion
  is the call \<open>model.create_completion(prompt, ..., stream=True)\<close>: it raises, or returns the
  stream, given here together with the Stop presses of the run.
\<close>

datatype event = Chunk pyval | Raise py_error | Stop

type_synonym completion = "string \<Rightarrow> py_error + event list"

text \<open>
  The loop \<open>for chunk in response\<close>, with \<open>full_response\<close> as accumulator. The result is
  the exception that left the loop or the accumulated text, and the state.
\<close>

fun stream_loop :: "event list \<Rightarrow> string \<Rightarrow> app \<Rightarrow> (py_error + string) \<times> app" where
  "stream_loop [] full_response st = (Inr full_response, st)"
| "stream_loop (Stop # es) full_response st = stream_loop es full_response (stop_generation st)"
| "stream_loop (Raise e # es) full_response st = (Inl e, st)"
| "stream_loop (Chunk chunk # es) full_response st =
     (if stop_generation_flag st then
        (Inr full_response, put (Error_message stopped_by_user) st)
      else
        (case extract_token chunk of
           Inl e \<Rightarrow> (Inl e, st)
         | Inr token \<Rightarrow>
             if truthy token then
               (case token of
                  PStr t \<Rightarrow> stream_loop es (full_response @ t) (put (Stream_token t) st)
                | _ \<Rightarrow> (Inl (TypeError ''can only concatenate str to str''), st))
             else stream_loop es full_response st))"

text \<open>The block under \<open>if not self.stop_generation_flag\<close> that follows the loop.\<close>

definition finalize_response :: "env \<Rightarrow> string \<Rightarrow> string \<Rightarrow> app \<Rightarrow> app" where
  "finalize_response e user_message full_response st =
     (let ai_response = format_code_response (strip full_response) user_message in
      if ai_response \<noteq> [] \<and> \<not> is_duplicate_response (current_conversation st) ai_response
      then
        put (Stream_end ai_response) (save_current e (append_assistant e ai_response st))
      else
        let default_code = generate_statistics_code in
        put (Stream_end default_code) (save_current e (append_assistant e default_code st)))"

text \<open>The handler \<open>except Exception as e\<close> of \<open>generate_response_streaming\<close>.\<close>

definition on_exception :: "py_error \<Rightarrow> app \<Rightarrow> app" where
  "on_exception e st =
     (put (Error_message (generation_error e)) st)
       \<lparr>is_generating := False, stop_generation_flag := False\<rparr>"

definition generate_response_streaming ::
  "env \<Rightarrow> completion \<Rightarrow> string \<Rightarrow> app \<Rightarrow> app" where
  "generate_response_streaming e create_completion user_message st0 =
     (let st = st0\<lparr>is_generating := True, stop_generation_flag := False\<rparr>;
          prompt = build_prompt (current_conversation st) user_message
      in
      if any_keyword_in image_keywords (lower user_message) then
        (put (Stream_end image_disclaimer) st)\<lparr>is_generating := False\<rparr>
      else
        (case create_completion prompt of
           Inl err \<Rightarrow> on_exception err (st\<lparr>model_calls := model_calls st @ [prompt]\<rparr>)
         | Inr response \<Rightarrow>
             (case stream_loop response [] (st\<lparr>model_calls := model_calls st @ [prompt]\<rparr>) of
                (Inl err, st1) \<Rightarrow> on_exception err st1
              | (Inr full_response, st1) \<Rightarrow>
                  (if \<not> stop_generation_flag st1
                   then finalize_response e user_message full_response st1
                   else st1)
                  \<lparr>is_generating := False, stop_generation_flag := False\<rparr>)))"


subsection \<open>The preceding assistant message, and a fresh application\<close>


text \<open>The fields as \<open>PrometheusAI.__init__\<close> sets them, on an empty directory.\<close>

definition initial_app :: app where
  "initial_app =
     \<lparr>current_conversation = [], current_conversation_id = None, is_generating = False,
      stop_generation_flag = False, response_queue = [], files = Map.empty,
      model_calls = [], streaming_text = [], stream_chunks = [], stream_dirty = False,
      label_exists = False, streaming_frame = False, chat_area = []\<rparr>"

text \<open>
  A decoder for a fragment of JSON, to run the loader on concrete files: white space,
  \<open>null\<close>, \<open>true\<close>, \<open>false\<close>, integers, strings without escapes, arrays and objects. Any
  other text is answered with \<open>JSONDecodeError\<close>. The first argument of the parsing
  functions bounds the depth of their recursion.
\<close>

definition json_space :: "char \<Rightarrow> bool" where
  "json_space c = (c \<in> set [CHR 0x20, CHR 0x09, CHR 0x0A, CHR 0x0D])"

definition skip_space :: "string \<Rightarrow> string" where
  "skip_space s = dropWhile json_space s"

definition is_digit :: "char \<Rightarrow> bool" where
  "is_digit c = (c \<in> set ''0123456789'')"

definition digit_value :: "char \<Rightarrow> int" where
  "digit_value c =
     (case map_of (zip ''0123456789'' [0, 1, 2, 3, 4, 5, 6, 7, 8, 9]) c of
        Some v \<Rightarrow> v | None \<Rightarrow> 0)"

definition parse_digits :: "string \<Rightarrow> (int \<times> string) option" where
  "parse_digits s =
     (let digits = takeWhile is_digit s; rest = dropWhile is_digit s in
      if digits = [] \<or> (length digits > 1 \<and> hd digits = CHR ''0'') then None
      else if rest \<noteq> [] \<and> hd rest \<in> set ''.eE'' then None
      else Some (foldl (\<lambda>a c. 10 * a + digit_value c) 0 digits, rest))"

definition parse_int :: "string \<Rightarrow> (pyval \<times> string) option" where
  "parse_int s =
     (case s of
        [] \<Rightarrow> None
      | c # r \<Rightarrow>
          if c = CHR ''-''
          then (case parse_digits r of None \<Rightarrow> None | Some (v, rest) \<Rightarrow> Some (PInt (- v), rest))
          else (case parse_digits s of None \<Rightarrow> None | Some (v, rest) \<Rightarrow> Some (PInt v, rest)))"

text \<open>The text of a string, after its opening quote, and what follows its closing quote.\<close>

definition plain_char :: "char \<Rightarrow> bool" where
  "plain_char c = (c \<noteq> CHR 0x22 \<and> c \<noteq> CHR 0x5C \<and> (32::nat) \<le> of_char c)"

definition parse_string :: "string \<Rightarrow> (string \<times> string) option" where
  "parse_string s =
     (case dropWhile plain_char s of
        [] \<Rightarrow> None
      | c # rest \<Rightarrow> if c = CHR 0x22 then Some (takeWhile plain_char s, rest) else None)"

text \<open>The dictionary of a list of pairs: a later pair with the same key replaces the value.\<close>

definition dict_of_pairs :: "(string \<times> pyval) list \<Rightarrow> (string \<times> pyval) list" where
  "dict_of_pairs kvs = foldl (\<lambda>d kv. dict_set d (fst kv) (snd kv)) [] kvs"

fun parse_value :: "nat \<Rightarrow> string \<Rightarrow> (pyval \<times> string) option"
  and parse_items :: "nat \<Rightarrow> string \<Rightarrow> (pyval list \<times> string) option"
  and parse_pairs :: "nat \<Rightarrow> string \<Rightarrow> ((string \<times> pyval) list \<times> string) option"
where
  "parse_value 0 s = None"
| "parse_value (Suc n) s =
     (case skip_space s of
        [] \<Rightarrow> None
      | c # r \<Rightarrow>
          if c = CHR ''['' then
            (case skip_space r of
               [] \<Rightarrow> None
             | c2 # r2 \<Rightarrow>
                 if c2 = CHR '']'' then Some (PList [], r2)
                 else (case parse_items n r of
                         None \<Rightarrow> None
                       | Some (vs, r3) \<Rightarrow> Some (PList vs, r3)))
          else if c = CHR ''{'' then
            (case skip_space r of
               [] \<Rightarrow> None
             | c2 # r2 \<Rightarrow>
                 if c2 = CHR ''}'' then Some (PDict [], r2)
                 else (case parse_pairs n r of
                         None \<Rightarrow> None
                       | Some (kvs, r3) \<Rightarrow> Some (PDict (dict_of_pairs kvs), r3)))
          else if c = CHR 0x22 then
            (case parse_string r of None \<Rightarrow> None | Some (str, r2) \<Rightarrow> Some (PStr str, r2))
          else if startswith (c # r) ''null'' then Some (PNone, drop 4 (c # r))
          else if startswith (c # r) ''true'' then Some (PBool True, drop 4 (c # r))
          else if startswith (c # r) ''false'' then Some (PBool False, drop 5 (c # r))
          else parse_int (c # r))"
| "parse_items 0 s = None"
| "parse_items (Suc n) s =
     (case parse_value n s of
        None \<Rightarrow> None
      | Some (v, r) \<Rightarrow>
          (case skip_space r of
             [] \<Rightarrow> None
           | c # r2 \<Rightarrow>
               if c = CHR '','' then
                 (case parse_items n r2 of
                    None \<Rightarrow> None
                  | Some (vs, r3) \<Rightarrow> Some (v # vs, r3))
               else if c = CHR '']'' then Some ([v], r2)
               else None))"
| "parse_pairs 0 s = None"
| "parse_pairs (Suc n) s =
     (case skip_space s of
        [] \<Rightarrow> None
      | c # r \<Rightarrow>
          if c \<noteq> CHR 0x22 then None
          else
            (case parse_string r of
               None \<Rightarrow> None
             | Some (key, r2) \<Rightarrow>
                 (case skip_space r2 of
                    [] \<Rightarrow> None
                  | c2 # r3 \<Rightarrow>
                      if c2 \<noteq> CHR '':'' then None
                      else
                        (case parse_value n r3 of
                           None \<Rightarrow> None
                         | Some (v, r4) \<Rightarrow>
                             (case skip_space r4 of
                                [] \<Rightarrow> None
                              | c3 # r5 \<Rightarrow>
                                  if c3 = CHR '','' then
                                    (case parse_pairs n r5 of
                                       None \<Rightarrow> None
                                     | Some (kvs, r6) \<Rightarrow> Some ((key, v) # kvs, r6))
                                  else if c3 = CHR ''}'' then Some ([(key, v)], r5)
                                  else None)))))"

definition example_loads :: "string \<Rightarrow> decoded" where
  "example_loads s =
     (case parse_value (2 * length s + 2) s of
        None \<Rightarrow> JSON_decode_error
      | Some (v, rest) \<Rightarrow> if skip_space rest = [] then Decoded v else JSON_decode_error)"

text \<open>
  An environment to run the model on: a serialiser that lists the texts, the decoder
  above, files that all decode as UTF-8, and a clock.
\<close>

definition example_dumps :: "conversation \<Rightarrow> string" where
  "example_dumps c =
     conv_id c @ ''|'' @ title c @ ''|''
     @ concat (map (\<lambda>msg. role msg @ '':'' @ content msg @ '';'') (messages c))"

definition all_utf8 :: "string \<Rightarrow> bool" where
  "all_utf8 bytes = True"

definition example_env :: env where
  "example_env =
     \<lparr>dumps = example_dumps, loads = example_loads, utf8_decodes = all_utf8,
      message_time = ''2024-01-01T10:00:01'', save_time = ''2024-01-01T10:00:02'',
      load_time = ''2024-01-01T10:00:03'', unix_time = 1704103200\<rparr>"


text \<open>The tokens a list of chunks puts on the queue: the text deltas that are not empty.\<close>

definition tokens_of :: "pyval list \<Rightarrow> string list" where
  "tokens_of cs = filter (\<lambda>t. t \<noteq> []) (map text_delta cs)"


section \<open>Sending a message and pumping the queue\<close>

text \<open>
  \<open>send_message\<close> for a loaded model and no attached file: the guard, the identifier of a
  fresh conversation, the user's message appended, shown and saved, and the empty label
  that the stream will fill. The generation thread it starts is
  \<open>generate_response_streaming\<close> on the stripped message.
\<close>

definition create_streaming_message :: "app \<Rightarrow> app" where
  "create_streaming_message st =
     st\<lparr>streaming_frame := True, label_exists := True,
        chat_area := chat_area st @ [Streaming_label_created]\<rparr>"

definition send_message :: "env \<Rightarrow> string \<Rightarrow> app \<Rightarrow> app" where
  "send_message e input st =
     (let message = strip input in
      if is_generating st \<or> message = [] then st
      else
        let st1 = (if current_conversation st = []
                   then st\<lparr>current_conversation_id := Some (''conv_'' @ decimal (unix_time e))\<rparr>
                   else st);
            st2 = st1\<lparr>current_conversation := current_conversation st1
                    @ [\<lparr>role = ''user'', content = message, timestamp = message_time e\<rparr>],
                      chat_area := chat_area st1 @ [User_message_displayed message]\<rparr>
        in create_streaming_message (save_current e st2))"

text \<open>The cursor glyph, with the space before it.\<close>

definition cursor :: string where
  "cursor = '' '' @ [CHR 0xE2, CHR 0x96, CHR 0x8C]"

definition update_streaming_message :: "string \<Rightarrow> app \<Rightarrow> app" where
  "update_streaming_message text st =
     (if label_exists st then st\<lparr>chat_area := chat_area st @ [Label_config (text @ cursor)]\<rparr>
      else st)"

text \<open>
  The four statements that move the pending chunks into \<open>streaming_text\<close> and show it;
  they stand under \<open>stream_end\<close> and in the \<open>finally\<close> block of \<open>check_queue\<close>.
\<close>

definition flush_chunks :: "app \<Rightarrow> app" where
  "flush_chunks st =
     (let st1 = st\<lparr>streaming_text := streaming_text st @ concat (stream_chunks st),
                   stream_chunks := [], stream_dirty := False\<rparr>
      in update_streaming_message (streaming_text st1) st1)"

text \<open>
  \<open>finalize_streaming_message\<close>: the streaming frame goes, and its label with it; the
  permanent message comes, and \<open>display_ai_message_with_code\<close> clears the label and
  \<open>streaming_text\<close>.
\<close>

definition finalize_streaming_message :: "string \<Rightarrow> app \<Rightarrow> app" where
  "finalize_streaming_message final_text st =
     (let st1 = (if streaming_frame st
                 then st\<lparr>streaming_frame := False, label_exists := False,
                         chat_area := chat_area st @ [Frame_destroyed]\<rparr>
                 else st)
      in st1\<lparr>chat_area := chat_area st1
                 @ [Ai_message_displayed (display_ai_message_with_code final_text)],
             label_exists := False, streaming_text := []\<rparr>)"

definition display_error_message :: "string \<Rightarrow> app \<Rightarrow> app" where
  "display_error_message message st = st\<lparr>chat_area := chat_area st @ [Error_displayed message]\<rparr>"

text \<open>One turn of the loop \<open>while True\<close> of \<open>check_queue\<close>, for the message taken.\<close>

fun handle_message :: "app \<Rightarrow> stream_message \<Rightarrow> app" where
  "handle_message st (Stream_token data) =
     st\<lparr>stream_chunks := stream_chunks st @ [data], stream_dirty := True\<rparr>"
| "handle_message st (Stream_end data) =
     finalize_streaming_message data (if stream_dirty st then flush_chunks st else st)"
| "handle_message st (Error_message data) = display_error_message data st"

text \<open>
  One tick: every message on the queue is taken and handled in order, then the
  \<open>finally\<close> block flushes what is still pending if the label is there.
\<close>

definition check_queue :: "app \<Rightarrow> app" where
  "check_queue st =
     (let st1 = foldl handle_message (st\<lparr>response_queue := []\<rparr>) (response_queue st) in
      if stream_dirty st1 \<and> label_exists st1 then flush_chunks st1 else st1)"



subsection \<open>Example runs\<close>


definition text_chunk :: "string \<Rightarrow> pyval" where
  "text_chunk t = PDict [(''choices'', PList [PDict [(''text'', PStr t)]])]"



definition greeting_sent :: app where
  "greeting_sent = send_message example_env ''bonjour'' initial_app"





text \<open>The stream of one chunk, with a press of Stop after that last chunk.\<close>

definition stopped_late_completion :: completion where
  "stopped_late_completion prompt = Inr [Chunk (text_chunk ''Bon''), Stop]"


text \<open>A message that is one fenced block whose only line is indented.\<close>

definition indented_block :: string where
  "indented_block = ''```python\<newline>  x\<newline>```''"


text \<open>
  Conversation files: one whose \<open>id\<close> and \<open>title\<close> are null; one without \<open>id\<close> whose
  second message is a number; one cut in the middle of a string; one that is a form feed
  before an empty object.
\<close>

definition null_id_file :: string where
  "null_id_file =
     ''{'' @ [CHR 0x22] @ ''id'' @ [CHR 0x22] @ '': null, '' @ [CHR 0x22] @ ''title''
     @ [CHR 0x22] @ '': null, '' @ [CHR 0x22] @ ''messages'' @ [CHR 0x22] @ '': []}''"

definition untitled_file :: string where
  "untitled_file =
     ''{'' @ [CHR 0x22] @ ''title'' @ [CHR 0x22] @ '': '' @ [CHR 0x22] @ ''t'' @ [CHR 0x22]
     @ '', '' @ [CHR 0x22] @ ''messages'' @ [CHR 0x22] @ '': [{'' @ [CHR 0x22] @ ''role''
     @ [CHR 0x22] @ '': '' @ [CHR 0x22] @ ''user'' @ [CHR 0x22] @ '', '' @ [CHR 0x22]
     @ ''content'' @ [CHR 0x22] @ '': '' @ [CHR 0x22] @ ''hi'' @ [CHR 0x22] @ ''}, 5]}''"

definition conv_1_path :: string where
  "conv_1_path = ''conversations/conv_1.json''"

definition truncated_file :: string where
  "truncated_file = ''{'' @ [CHR 0x22] @ ''id'' @ [CHR 0x22] @ '': '' @ [CHR 0x22] @ ''conv_1''"

definition form_feed_file :: string where
  "form_feed_file = [CHR 0x0C] @ ''{}''"


section \<open>Properties of the prompt\<close>

lemma foldl_add_history_line:
  "foldl add_history_line p ms = p @ concat (map history_line ms)"
  by (induction ms arbitrary: p) (simp_all add: add_history_line_def history_line_def)

lemma last_n_length: "length (last_n n xs) = min n (length xs)"
  by (simp add: last_n_def)

lemma last_n_suffix: "\<exists>ys. xs = ys @ last_n n xs"
  by (metis append_take_drop_id last_n_def)

text \<open>
  C6, as stated: for every history and user message the prompt is the preamble, the last
  six history lines, the user message, and the code-only instruction exactly when the
  message has a programming keyword. With an empty history and the message \<open>bonjour\<close>,
  which has no programming keyword, the code returns the stand-alone system prompt: it
  tells the model to answer with code only (\<open>UNIQUEMENT avec\<close>) and has no \<open>Assistant:\<close>
  cue, whatever the preamble is taken to be.
\<close>

theorem build_prompt_empty_history_counterexample:
  "\<not> is_programming_request ''bonjour''
   \<and> build_prompt [] ''bonjour'' = first_prompt ''bonjour''
   \<and> build_prompt [] ''bonjour'' \<noteq> prompt_spec [] ''bonjour''
   \<and> contains (build_prompt [] ''bonjour'') ''UNIQUEMENT avec''
   \<and> \<not> contains (build_prompt [] ''bonjour'') ''Assistant:''"
  by (simp add: build_prompt_def prompt_spec_def first_prompt_def is_programming_request_def
      prompt_keywords_def lower_def lower_char_def last_n_def history_header_def)

text \<open>
  C6, amended: for every user message and every non-empty history, the prompt is the
  history header, the last six messages of the history as \<open>Role: content\<close> lines, the new
  user message, the code-only instruction exactly when the lower-cased message contains a
  programming keyword, and the \<open>Assistant:\<close> cue; for the empty history the prompt is the
  stand-alone system prompt quoting the user message.
\<close>

theorem build_prompt_nonempty_history:
  "(history \<noteq> [] \<longrightarrow> build_prompt history user_message = prompt_spec history user_message)
   \<and> build_prompt [] user_message = first_prompt user_message"
  by (simp add: build_prompt_def prompt_spec_def is_programming_request_def
      foldl_add_history_line Let_def)

theorem build_prompt_nonempty_history_witness:
  "[\<lparr>role = ''user'', content = ''du code python'', timestamp = ''t''\<rparr>] \<noteq> []
   \<and> build_prompt [\<lparr>role = ''user'', content = ''du code python'', timestamp = ''t''\<rparr>]
         ''du code python''
       = ''Historique de la conversation:\<newline>Utilisateur: du code python\<newline>''
         @ ''\<newline>Utilisateur: du code python\<newline>\<newline>''
         @ code_only_instruction @ ''Assistant:''"
  using build_prompt_nonempty_history
    [of "[\<lparr>role = ''user'', content = ''du code python'', timestamp = ''t''\<rparr>]"
        "''du code python''"]
  by (simp add: prompt_spec_def is_programming_request_def prompt_keywords_def lower_def
      lower_char_def last_n_def history_header_def history_line_def role_label_def)

section \<open>Properties of the token extraction\<close>

lemma extract_token_dict:
  assumes "chunk_shape (PDict d)"
  shows "extract_token (PDict d) = Inr (PStr (text_delta (PDict d)))"
proof (cases "map_of d ''choices''")
  case None
  then show ?thesis
    by (simp add: extract_token_def is_dict_def dict_get_def py_or_def text_delta_def
        text_entry_def choices_entry_def)
next
  case (Some v)
  with assms have shape: "v = PNone \<or> (\<exists>cs. v = PList cs)"
    by (cases v) (simp_all add: chunk_shape_def choices_entry_def)
  then show ?thesis
  proof
    assume "v = PNone"
    with Some show ?thesis
      by (simp add: extract_token_def is_dict_def dict_get_def py_or_def text_delta_def
          text_entry_def choices_entry_def)
  next
    assume "\<exists>cs. v = PList cs"
    then obtain cs where v: "v = PList cs" ..
    show ?thesis
    proof (cases cs)
      case Nil
      with Some v show ?thesis
        by (simp add: extract_token_def is_dict_def dict_get_def py_or_def text_delta_def
            text_entry_def choices_entry_def)
    next
      case (Cons c0 rest)
      show ?thesis
      proof (cases c0)
        case (PDict d0)
        with assms Some v Cons
        have "case map_of d0 ''text'' of
                None \<Rightarrow> True | Some (PStr s) \<Rightarrow> True | Some PNone \<Rightarrow> True | Some w \<Rightarrow> False"
          by (simp add: chunk_shape_def choices_entry_def text_entry_def)
        with Some v Cons PDict show ?thesis
          by (auto simp add: extract_token_def is_dict_def dict_get_def py_or_def
              text_delta_def text_entry_def choices_entry_def dict_text_def
              dict_get_default_def split: option.splits pyval.splits)
      qed (use Some v Cons in \<open>simp_all add: extract_token_def is_dict_def dict_get_def
            py_or_def text_delta_def text_entry_def choices_entry_def\<close>)
    qed
  qed
qed

lemma extract_token_object:
  assumes "chunk_shape (PObject a)"
  shows "extract_token (PObject a) = Inr (PStr (text_delta (PObject a)))"
proof (cases "map_of a ''choices''")
  case None
  then show ?thesis
    by (simp add: extract_token_def is_dict_def text_delta_def text_entry_def
        choices_entry_def)
next
  case (Some v)
  with assms have shape: "v = PNone \<or> (\<exists>cs. v = PList cs)"
    by (cases v) (simp_all add: chunk_shape_def choices_entry_def)
  then show ?thesis
  proof
    assume "v = PNone"
    with Some show ?thesis
      by (simp add: extract_token_def is_dict_def text_delta_def text_entry_def
          choices_entry_def)
  next
    assume "\<exists>cs. v = PList cs"
    then obtain cs where v: "v = PList cs" ..
    show ?thesis
    proof (cases cs)
      case Nil
      with Some v show ?thesis
        by (simp add: extract_token_def is_dict_def text_delta_def text_entry_def
            choices_entry_def)
    next
      case (Cons c0 rest)
      show ?thesis
      proof (cases c0)
        case (PDict d0)
        with assms Some v Cons
        have "case map_of d0 ''text'' of
                None \<Rightarrow> True | Some (PStr s) \<Rightarrow> True | Some PNone \<Rightarrow> True | Some w \<Rightarrow> False"
          by (simp add: chunk_shape_def choices_entry_def text_entry_def)
        with Some v Cons PDict show ?thesis
          by (auto simp add: extract_token_def is_dict_def py_or_def
              text_delta_def text_entry_def choices_entry_def dict_text_def
              dict_get_default_def split: option.splits pyval.splits)
      next
        case (PObject a0)
        with assms Some v Cons
        have "case map_of a0 ''text'' of
                None \<Rightarrow> True | Some (PStr s) \<Rightarrow> True | Some PNone \<Rightarrow> True | Some w \<Rightarrow> False"
          by (simp add: chunk_shape_def choices_entry_def text_entry_def)
        with Some v Cons PObject show ?thesis
          by (auto simp add: extract_token_def is_dict_def py_or_def
              text_delta_def text_entry_def choices_entry_def
              split: option.splits pyval.splits)
      qed (use Some v Cons in \<open>simp_all add: extract_token_def is_dict_def
            py_or_def text_delta_def text_entry_def choices_entry_def\<close>)
    qed
  qed
qed

lemma extract_token_of_shape:
  assumes "chunk_shape chunk"
  shows "extract_token chunk = Inr (PStr (text_delta chunk))"
proof (cases chunk)
  case (PDict d)
  with assms show ?thesis by (simp add: extract_token_dict)
next
  case (PObject a)
  with assms show ?thesis by (simp add: extract_token_object)
qed (simp_all add: extract_token_def is_dict_def text_delta_def text_entry_def
      choices_entry_def)




section \<open>Properties of the generation thread\<close>



lemma stop_generation_frame:
  "current_conversation (stop_generation st) = current_conversation st"
  "files (stop_generation st) = files st"
  "current_conversation_id (stop_generation st) = current_conversation_id st"
  "model_calls (stop_generation st) = model_calls st"
  by (simp_all add: stop_generation_def)

lemma stream_loop_frame:
  "current_conversation (snd (stream_loop es full st)) = current_conversation st
   \<and> files (snd (stream_loop es full st)) = files st
   \<and> current_conversation_id (snd (stream_loop es full st)) = current_conversation_id st
   \<and> model_calls (snd (stream_loop es full st)) = model_calls st"
  by (induction es full st rule: stream_loop.induct)
     (auto simp add: stop_generation_frame put_def split: sum.splits pyval.splits)

lemma concat_tokens_of: "concat (tokens_of cs) = concat (map text_delta cs)"
  by (induction cs) (simp_all add: tokens_of_def)










section \<open>Example runs, evaluated\<close>

lemma greeting_sent_fields:
  "current_conversation greeting_sent
     = [\<lparr>role = ''user'', content = ''bonjour'', timestamp = ''2024-01-01T10:00:01''\<rparr>]"
  "current_conversation_id greeting_sent = Some (''conv_'' @ decimal 1704103200)"
  "response_queue greeting_sent = []"
  "model_calls greeting_sent = []"
  "label_exists greeting_sent" "streaming_frame greeting_sent"
  "\<not> stream_dirty greeting_sent" "stream_chunks greeting_sent = []"
  "streaming_text greeting_sent = []"
  "\<not> is_generating greeting_sent"
  "chat_area greeting_sent = [User_message_displayed ''bonjour'', Streaming_label_created]"
  by (simp_all add: greeting_sent_def send_message_def initial_app_def example_env_def
      strip_def lstrip_def rstrip_def isspace_def Let_def save_current_def
      create_streaming_message_def assigned_id_def)

lemma greeting_is_no_image_request:
  "\<not> any_keyword_in image_keywords (lower ''bonjour'')"
  by (simp add: image_keywords_def lower_def lower_char_def)

lemma text_chunk_shape: "chunk_shape (text_chunk t)" "text_delta (text_chunk t) = t"
  by (simp_all add: text_chunk_def chunk_shape_def choices_entry_def text_entry_def
      text_delta_def)

lemma decimal_example: "decimal 1704103200 = ''1704103200''"
  by (simp add: decimal.simps)

section \<open>The image request\<close>





section \<open>Duplicate replies\<close>






section \<open>Cancellation\<close>




text \<open>
  A press of Stop after the last chunk is never seen by the loop. The test that follows
  the loop then skips the reply, and the run ends without an end or error message.
\<close>

lemma stop_after_last_chunk_is_silent:
  "response_queue
     (generate_response_streaming example_env stopped_late_completion ''bonjour''
        greeting_sent)
   = [Stream_token ''Bon'']"
  by (simp add: generate_response_streaming_def stopped_late_completion_def
      greeting_is_no_image_request
      extract_token_of_shape text_chunk_shape put_def stop_generation_def greeting_sent_fields)

section \<open>Saving\<close>

text \<open>
  The target of a save that replaces an existing file, after each of the four calls: the
  old text until the target is removed, nothing between the removal and the renaming,
  the new text after the renaming.
\<close>

lemma save_run_stages:
  "snd (save_run 0 p new (d(p \<mapsto> old))) p = Some old"
  "snd (save_run 1 p new (d(p \<mapsto> old))) p = Some old"
  "snd (save_run 2 p new (d(p \<mapsto> old))) p = Some old"
  "snd (save_run 3 p new (d(p \<mapsto> old))) p = None"
  "snd (save_run 4 p new (d(p \<mapsto> old))) p = Some new"
  by (simp_all add: eval_nat_numeral)

text \<open>
  C2 says that a save cut between the writing of the temporary file and the renaming
  never leaves an existing target missing. The code removes the target before it renames
  the temporary file: cut after the third call, the disk holds the temporary file with
  the new text and no target.
\<close>

theorem save_cut_before_rename_loses_target:
  "save_run 3 ''conversations/conv_1.json'' ''new text''
     [''conversations/conv_1.json'' \<mapsto> ''old text'']
   = (Rename_temp, [''conversations/conv_1.json.tmp'' \<mapsto> ''new text''])"
  by (simp add: eval_nat_numeral fun_upd_twist)

section \<open>The pump\<close>

lemma handle_tokens:
  "foldl handle_message st (map Stream_token ts) =
     (if ts = [] then st
      else st\<lparr>stream_chunks := stream_chunks st @ ts, stream_dirty := True\<rparr>)"
  by (induction ts arbitrary: st) simp_all

text \<open>
  Tokens followed by the end message, taken in one tick: the label shows the whole text
  before the streaming frame goes and the permanent message comes.
\<close>

lemma check_queue_tokens_then_end:
  assumes "label_exists st" and "streaming_frame st"
    and "\<not> stream_dirty st" and "stream_chunks st = []"
  shows "chat_area (check_queue (st\<lparr>response_queue := map Stream_token ts @ [Stream_end final]\<rparr>))
         = chat_area st
           @ (if ts = [] then [] else [Label_config (streaming_text st @ concat ts @ cursor)])
           @ [Frame_destroyed, Ai_message_displayed (display_ai_message_with_code final)]"
  using assms
  by (simp add: check_queue_def handle_tokens flush_chunks_def update_streaming_message_def
      finalize_streaming_message_def Let_def)

text \<open>
  Tokens followed by an error message, taken in one tick: the branch for errors does not
  flush, so the error is shown first and the pending text reaches the label afterwards,
  in the \<open>finally\<close> block.
\<close>

lemma check_queue_tokens_then_error:
  assumes "label_exists st" and "\<not> stream_dirty st" and "stream_chunks st = []"
  shows "chat_area (check_queue (st\<lparr>response_queue := map Stream_token ts @ [Error_message err]\<rparr>))
         = chat_area st
           @ [Error_displayed err]
           @ (if ts = [] then [] else [Label_config (streaming_text st @ concat ts @ cursor)])"
  using assms
  by (simp add: check_queue_def handle_tokens flush_chunks_def update_streaming_message_def
      display_error_message_def Let_def)

text \<open>
  C3 says that the pending token text is flushed before the terminal action, for an end
  and for an error message. For the tokens \<open>Bon\<close>, \<open>jour\<close> followed by an error, the
  error is displayed while the label has not been given the text yet.
\<close>

theorem error_shown_before_pending_tokens:
  "chat_area (check_queue (greeting_sent
      \<lparr>response_queue := [Stream_token ''Bon'', Stream_token ''jour'', Error_message ''boom'']\<rparr>))
   = chat_area greeting_sent
     @ [Error_displayed ''boom'', Label_config (''Bonjour'' @ cursor)]"
  using check_queue_tokens_then_error
    [where st = greeting_sent and ts = "[''Bon'', ''jour'']" and err = "''boom''"]
  by (simp add: greeting_sent_fields)

text \<open>
  After that tick the text of the failed reply is still in \<open>streaming_text\<close>, where the
  tokens of the next reply will be appended to it: only the end branch resets it.
\<close>

lemma error_leaves_streaming_text:
  "streaming_text (check_queue (greeting_sent
      \<lparr>response_queue := [Stream_token ''Bon'', Stream_token ''jour'', Error_message ''boom'']\<rparr>))
   = ''Bonjour''"
  by (simp add: check_queue_def flush_chunks_def update_streaming_message_def
      display_error_message_def greeting_sent_fields Let_def)


section \<open>The segmentation of a displayed message\<close>










lemma match_example: "match_at indented_block = Some (''python'', ''  x\<newline>'', 17)"
  by (simp add: indented_block_def match_at_def is_word_def isspace_def Let_def)






section \<open>Loading a conversation file\<close>










lemma example_decodings:
  "example_loads null_id_file
     = Decoded (PDict [(''id'', PNone), (''title'', PNone), (''messages'', PList [])])"
  "example_loads untitled_file
     = Decoded (PDict [(''title'', PStr ''t''),
                       (''messages'', PList [PDict [(''role'', PStr ''user''),
                                                    (''content'', PStr ''hi'')],
                                             PInt 5])])"
  "example_loads ''[]'' = Decoded (PList [])"
  "example_loads truncated_file = JSON_decode_error"
  by code_simp+

lemma conv_1_id: "splitext_root (basename conv_1_path) = ''conv_1''"
  by (simp add: conv_1_path_def basename_def splitext_root_def)




lemma load_untitled_file:
  "fst (load_conversation_file example_env conv_1_path [conv_1_path \<mapsto> untitled_file])
   = Inr (PDict [(''title'', PStr ''t''),
                 (''messages'', PList [PDict [(''role'', PStr ''user''),
                                              (''content'', PStr ''hi''),
                                              (''timestamp'', PStr ''2024-01-01T10:00:03'')]]),
                 (''id'', PStr ''conv_1'')])"
  by (simp add: load_conversation_file_def read_file_def example_env_def all_utf8_def
      example_decodings validate_conversation_def fill_field_def dict_set_def dict_get_def
      create_default_conversation_def conv_1_id stamp_message_def)

text \<open>
  The contents the amended statement leaves out. \<open>repair_json_file\<close> returns what it
  decodes without looking at it: a file that is a JSON list comes back as that list, and
  a file that decodes only once stripped comes back without the required fields. A
  decoder that gives up on the first reading raises through the loader.
\<close>

lemma load_returns_list_as_it_is:
  "fst (load_conversation_file example_env conv_1_path [conv_1_path \<mapsto> ''[]''])
     = Inr (PList [])"
  by (simp add: load_conversation_file_def read_file_def example_env_def all_utf8_def
      example_decodings repair_json_file_def strip_def lstrip_def rstrip_def isspace_def
      case_prod_beta)

lemma load_returns_stripped_mapping_as_it_is:
  "example_loads form_feed_file = JSON_decode_error
   \<and> fst (load_conversation_file example_env conv_1_path [conv_1_path \<mapsto> form_feed_file])
       = Inr (PDict [])"
proof -
  have first: "example_loads form_feed_file = JSON_decode_error"
    by code_simp
  have second: "example_loads ''{}'' = Decoded (PDict [])"
    by code_simp
  have stripped: "strip form_feed_file = ''{}''"
    by (simp add: form_feed_file_def strip_def lstrip_def rstrip_def isspace_def)
  show ?thesis
    by (simp add: load_conversation_file_def read_file_def example_env_def all_utf8_def
        first second stripped repair_json_file_def case_prod_beta)
qed

lemma load_raises_when_decoder_gives_up:
  assumes "d file_path = Some bytes" and "utf8_decodes e bytes"
    and "loads e bytes = Recursion_error"
  shows "load_conversation_file e file_path d
           = (Inl (RecursionError ''maximum recursion depth exceeded''), d)"
  using assms by (simp add: load_conversation_file_def read_file_def)

text \<open>A text that is no JSON is moved to a backup file, bytes unchanged.\<close>

lemma repair_keeps_backup:
  assumes "d file_path = Some bytes" and "utf8_decodes e bytes"
    and "strip bytes \<noteq> []" and "loads e (strip bytes) = JSON_decode_error"
  shows "snd (repair_json_file e file_path d)
           (file_path @ ''.backup_'' @ decimal (unix_time e)) = Some bytes
         \<and> snd (repair_json_file e file_path d) file_path = None"
  using assms
  by (simp add: repair_json_file_def read_file_def rename_file_def Let_def)

end
